theory Spec2Isabelle
  imports Complex_Main "HOL-Library.Sublist"
begin

section \<open>Data model (src/types.ts)\<close>

text \<open>
  The interfaces of \<^verbatim>\<open>types.ts\<close> become records, the enum \<^verbatim>\<open>AppState\<close> a datatype.
  A JavaScript \<^verbatim>\<open>number\<close> is a \<open>real\<close>; a field typed \<^verbatim>\<open>string | null\<close> is a
  \<open>string option\<close>. The payload numbers are only copied, never computed with.
\<close>

record Colors =
  primary :: string
  secondary :: string
  accent :: string

record PersonalityVector =
  traits :: "string list"
  energy :: real
  mood :: string
  colors :: Colors

record MusicDescription =
  genre :: string
  bpm :: real
  instruments :: "string list"
  vibe :: string

record GeneratedAssets =
  artPrompt :: string
  artBase64 :: "string option"
  storyText :: string
  musicDescription :: MusicDescription
  videoUri :: "string option"
  audioBase64 :: "string option"

datatype AppState = IDLE | RECORDING | ANALYZING | GENERATING_ASSETS | SHOWCASE | ERROR

record ArtDirection =
  prompt :: string
  style :: string

record StoryDirection =
  narrative :: string

text \<open>The field \<^verbatim>\<open>video.prompt\<close> is named \<open>video_prompt\<close>: a record field name is global.\<close>

record VideoDirection =
  video_prompt :: string

record TtsDirection =
  voice_name :: string
  speaking_rate :: real
  pitch :: string

text \<open>
  \<^verbatim>\<open>AnalyzerResponse\<close>: its fields carry the prefix \<open>resp_\<close>, since \<open>personality\<close> is also
  a state variable of the component.
\<close>

record AnalyzerResponse =
  resp_personality :: PersonalityVector
  resp_music :: MusicDescription
  resp_art :: ArtDirection
  resp_story :: StoryDirection
  resp_video :: VideoDirection
  resp_tts :: TtsDirection

section \<open>Component state (src/App.tsx, lines 13-19)\<close>

text \<open>
  The seven \<^verbatim>\<open>useState\<close> cells of \<^verbatim>\<open>App\<close>. The browser objects are kept as far as the
  code reads them: a \<^verbatim>\<open>MediaRecorder\<close> by its \<^verbatim>\<open>state\<close> attribute, a \<^verbatim>\<open>MediaStream\<close> by
  whether its tracks are live.
\<close>

datatype RecordingState = inactive | recording | paused

record MediaStream =
  tracksLive :: bool

record MediaRecorder =
  recorderState :: RecordingState

record App =
  state :: AppState
  stream :: "MediaStream option"
  mediaRecorder :: "MediaRecorder option"
  personality :: "PersonalityVector option"
  assets :: "GeneratedAssets option"
  error :: "string option"
  statusMessage :: string

definition initialApp :: App where
  "initialApp =
     \<lparr>state = IDLE, stream = None, mediaRecorder = None, personality = None,
      assets = None, error = None, statusMessage = ''Ready to vibe''\<rparr>"

text \<open>\<^verbatim>\<open>reset\<close> (lines 107-112): four setters, in the source's order.\<close>

definition reset :: "App \<Rightarrow> App" where
  "reset s = s\<lparr>state := IDLE, personality := None, assets := None, error := None\<rparr>"

section \<open>Errors and promises\<close>

text \<open>
  An error object, modelled by what the code reads of it: \<^verbatim>\<open>e.message\<close> (absent, or a
  string, as for every \<^verbatim>\<open>Error\<close> object), \<^verbatim>\<open>e.status\<close>, \<^verbatim>\<open>e.code\<close> and the text
  \<^verbatim>\<open>JSON.stringify(e)\<close>. The fields \<open>status\<close> and \<open>code\<close> are values of any
  JavaScript type, compared with \<^verbatim>\<open>===\<close>.
\<close>

datatype JsValue = JUndefined | JString string | JNumber real | JOther

record JsError =
  message :: "string option"
  status :: JsValue
  code :: JsValue
  json :: string

text \<open>\<^verbatim>\<open>new Error(msg)\<close>: only \<open>message\<close> is set; an \<^verbatim>\<open>Error\<close> serialises to \<^verbatim>\<open>{}\<close>.\<close>

definition Error :: "string \<Rightarrow> JsError" where
  "Error msg = \<lparr>message = Some msg, status = JUndefined, code = JUndefined, json = ''{}''\<rparr>"

text \<open>
  A thrown value of any shape, as the \<^verbatim>\<open>catch\<close> block of \<^verbatim>\<open>generateVideo\<close> may meet it
  (its parameter is typed \<^verbatim>\<open>any\<close>): an error object as above; \<^verbatim>\<open>null\<close> or
  \<^verbatim>\<open>undefined\<close>; a value whose \<^verbatim>\<open>message\<close> is neither \<^verbatim>\<open>null\<close> nor \<^verbatim>\<open>undefined\<close> and has
  no method \<^verbatim>\<open>includes\<close> (a number, say); an object with the given message (absent, or a
  string) for which \<^verbatim>\<open>JSON.stringify\<close> throws (a circular reference, a \<^verbatim>\<open>BigInt\<close>) or
  yields \<^verbatim>\<open>undefined\<close>.
\<close>

datatype Thrown =
    ErrorObject JsError
  | Nullish
  | OddMessage
  | Unserialisable "string option"

text \<open>
  What awaiting a promise gives: a value, a thrown value, or nothing at all when the
  promise never settles (\<open>Pending\<close>: the code after the \<^verbatim>\<open>await\<close> never runs). The calls
  of the video service reject with a \<open>Thrown\<close>; for every other call a thrown value is
  an error object, and \<open>outcome\<close> is the promise type there.
\<close>

datatype ('e, 'a) promise = Fulfilled 'a | Rejected 'e | Pending

type_synonym 'a outcome = "(JsError, 'a) promise"

fun isRejected :: "('e, 'a) promise \<Rightarrow> bool" where
  "isRejected (Rejected e) = True"
| "isRejected _ = False"

fun isFulfilled :: "('e, 'a) promise \<Rightarrow> bool" where
  "isFulfilled (Fulfilled v) = True"
| "isFulfilled _ = False"

text \<open>\<^verbatim>\<open>s.includes(sub)\<close>: \<open>sub\<close> occurs in \<open>s\<close> as a contiguous run.\<close>

definition jsIncludes :: "string \<Rightarrow> string \<Rightarrow> bool" where
  "jsIncludes s sub = sublist sub s"

text \<open>
  \<^verbatim>\<open>Promise.all([artPromise, ttsPromise])\<close>: fulfilled with both values once both are
  fulfilled; rejected as soon as one of the two rejects, with that promise's error. When
  both reject, the error is that of the one that rejects first in time, which the flag
  \<open>artFirst\<close> tells.
\<close>

fun promiseAll :: "bool \<Rightarrow> 'a outcome \<Rightarrow> 'b outcome \<Rightarrow> ('a \<times> 'b) outcome" where
  "promiseAll artFirst (Rejected ea) (Rejected eb) = Rejected (if artFirst then ea else eb)"
| "promiseAll artFirst (Rejected ea) _ = Rejected ea"
| "promiseAll artFirst _ (Rejected eb) = Rejected eb"
| "promiseAll artFirst (Fulfilled a) (Fulfilled b) = Fulfilled (a, b)"
| "promiseAll artFirst _ _ = Pending"

section \<open>The environment (window.aistudio) and the service (src/services/geminiService.ts)\<close>

text \<open>
  \<^verbatim>\<open>window.aistudio\<close> may be absent, and so may each of its two methods; a method that
  is present is given by what its promise does when called.
\<close>

record AiStudio =
  hasSelectedApiKey :: "bool outcome option"
  openSelectKey :: "unit outcome option"

record Window =
  aistudio :: "AiStudio option"

text \<open>The calls to the environment and to the video service that the logs below record.\<close>

datatype Call =
    HasSelectedApiKey
  | OpenSelectKey
  | GetUserMedia
  | GenerateVideos
  | GetVideosOperation

text \<open>
  A \<^verbatim>\<open>generateContent\<close> request, as far as the three callers set it: the model, the text
  part of the contents, and the configuration.
\<close>

datatype RequestConfig =
    ImageConfig string "string option"
  | SpeechConfig string
  | JsonConfig

fun aspectRatio :: "RequestConfig \<Rightarrow> string option" where
  "aspectRatio (ImageConfig ratio sz) = Some ratio"
| "aspectRatio _ = None"

record GenerateContentRequest =
  model :: string
  contentText :: string
  config :: RequestConfig

text \<open>
  A response, as far as the code reads it: \<^verbatim>\<open>response.text\<close> and the list
  \<^verbatim>\<open>response.candidates?.[0]?.content?.parts\<close> (\<open>None\<close> when the optional chain is
  undefined). A part has an optional \<^verbatim>\<open>inlineData\<close>, whose \<^verbatim>\<open>data\<close> is optional too.
\<close>

record InlineData =
  data :: "string option"

record Part =
  inlineData :: "InlineData option"

record GenerateContentResponse =
  responseText :: "string option"
  candidateParts :: "Part list option"

text \<open>
  \<^verbatim>\<open>getAI()\<close> builds a client with \<^verbatim>\<open>process.env.API_KEY\<close>: the constructor throws, or
  there is a client, given by what its \<^verbatim>\<open>models.generateContent\<close> does for a request.
\<close>

type_synonym Send = "GenerateContentRequest \<Rightarrow> GenerateContentResponse outcome"

datatype GenerateContent = NoClient JsError | Client Send

subsection \<open>analyzeAudioPersonality (lines 17-77)\<close>

text \<open>
  \<^verbatim>\<open>blobToBase64\<close> (\<^verbatim>\<open>utils/audioUtils\<close>) and \<^verbatim>\<open>JSON.parse\<close> are parameters: the first by
  what its promise does, the second as a partial function (\<open>None\<close>: it throws the given
  syntax error). \<open>analysisClient\<close> is the error \<^verbatim>\<open>getAI()\<close> throws at line 18, if it
  throws. The cast \<^verbatim>\<open>as AnalyzerResponse\<close> is taken at its word: a parsed payload has
  every field of the type.
\<close>

record AnalysisEnv =
  analysisClient :: "JsError option"
  blobToBase64 :: "string outcome"
  analysisContent :: "string \<Rightarrow> GenerateContentResponse outcome"
  jsonParse :: "string \<Rightarrow> AnalyzerResponse option"
  syntaxError :: JsError

definition analyzeAudioPersonality :: "AnalysisEnv \<Rightarrow> AnalyzerResponse outcome" where
  "analyzeAudioPersonality env =
     (case analysisClient env of
        Some e \<Rightarrow> Rejected e
      | None \<Rightarrow>
          (case blobToBase64 env of
             Pending \<Rightarrow> Pending
           | Rejected e \<Rightarrow> Rejected e
           | Fulfilled base64Audio \<Rightarrow>
               (case analysisContent env base64Audio of
                  Pending \<Rightarrow> Pending
                | Rejected e \<Rightarrow> Rejected e
                | Fulfilled response \<Rightarrow>
                    (case responseText response of
                       None \<Rightarrow> Rejected (Error ''No analysis generated'')
                     | Some txt \<Rightarrow>
                         if txt = [] then Rejected (Error ''No analysis generated'')
                         else (case jsonParse env txt of
                                 None \<Rightarrow> Rejected (syntaxError env)
                               | Some analysis \<Rightarrow> Fulfilled analysis)))))"

subsection \<open>generateArt (lines 79-122)\<close>

text \<open>
  \<^verbatim>\<open>parts?.find(p => p.inlineData)\<close> and the test \<^verbatim>\<open>part && part.inlineData\<close>: the
  \<^verbatim>\<open>inlineData\<close> of the first part that has one.
\<close>

definition findInlineData :: "GenerateContentResponse \<Rightarrow> InlineData option" where
  "findInlineData response =
     (case candidateParts response of
        None \<Rightarrow> None
      | Some parts \<Rightarrow>
          (case List.find (\<lambda>p. inlineData p \<noteq> None) parts of
             None \<Rightarrow> None
           | Some part \<Rightarrow> inlineData part))"

definition primaryRequest :: "string \<Rightarrow> GenerateContentRequest" where
  "primaryRequest p =
     \<lparr>model = ''gemini-3-pro-image-preview'', contentText = p,
      config = ImageConfig ''1:1'' (Some ''1K'')\<rparr>"

definition fallbackRequest :: "string \<Rightarrow> GenerateContentRequest" where
  "fallbackRequest p =
     \<lparr>model = ''gemini-2.5-flash-image'', contentText = p,
      config = ImageConfig ''1:1'' None\<rparr>"

text \<open>
  One tier: the call, then the search for the image part; \<open>notFound\<close> is the message of
  the error thrown when the response has none.
\<close>

definition imageTier :: "Send \<Rightarrow> GenerateContentRequest \<Rightarrow> string \<Rightarrow> string option outcome" where
  "imageTier send request notFound =
     (case send request of
        Pending \<Rightarrow> Pending
      | Rejected e \<Rightarrow> Rejected e
      | Fulfilled response \<Rightarrow>
          (case findInlineData response of
             Some d \<Rightarrow> Fulfilled (data d)
           | None \<Rightarrow> Rejected (Error notFound)))"

text \<open>
  \<^verbatim>\<open>generateArt\<close> returns the requests it sent, in order, and what its promise does.
  \<^verbatim>\<open>getAI()\<close> (line 80) stands before the \<^verbatim>\<open>try\<close>: when it throws, the promise is
  rejected and no request is sent. The \<^verbatim>\<open>catch\<close> block binds the error of the first
  tier and drops it; it uses the same client.
\<close>

definition generateArt :: "GenerateContent \<Rightarrow> string \<Rightarrow> GenerateContentRequest list \<times> string option outcome" where
  "generateArt ai p =
     (case ai of
        NoClient e \<Rightarrow> ([], Rejected e)
      | Client send \<Rightarrow>
          (case imageTier send (primaryRequest p) ''No image data found in response'' of
             Fulfilled d \<Rightarrow> ([primaryRequest p], Fulfilled d)
           | Pending \<Rightarrow> ([primaryRequest p], Pending)
           | Rejected e \<Rightarrow>
               ([primaryRequest p, fallbackRequest p],
                imageTier send (fallbackRequest p) ''Image generation failed'')))"

subsection \<open>generateSpeech (lines 124-142)\<close>

definition speechRequest :: "string \<Rightarrow> string \<Rightarrow> GenerateContentRequest" where
  "speechRequest txt voiceName =
     \<lparr>model = ''gemini-2.5-flash-preview-tts'', contentText = txt,
      config = SpeechConfig (if voiceName = [] then ''Puck'' else voiceName)\<rparr>"

text \<open>\<^verbatim>\<open>parts?.[0]?.inlineData?.data\<close>: the first part only.\<close>

definition firstPartData :: "GenerateContentResponse \<Rightarrow> string option" where
  "firstPartData response =
     (case candidateParts response of
        None \<Rightarrow> None
      | Some [] \<Rightarrow> None
      | Some (part # rest) \<Rightarrow>
          (case inlineData part of None \<Rightarrow> None | Some d \<Rightarrow> data d))"

text \<open>\<^verbatim>\<open>getAI()\<close> (line 125) is the first statement: when it throws, the promise is rejected.\<close>

definition generateSpeech :: "GenerateContent \<Rightarrow> string \<Rightarrow> string \<Rightarrow> string outcome" where
  "generateSpeech ai txt voiceName =
     (case ai of
        NoClient e \<Rightarrow> Rejected e
      | Client send \<Rightarrow>
          (case send (speechRequest txt voiceName) of
             Pending \<Rightarrow> Pending
           | Rejected e \<Rightarrow> Rejected e
           | Fulfilled response \<Rightarrow>
               (case firstPartData response of
                  None \<Rightarrow> Rejected (Error ''TTS generation failed'')
                | Some base64 \<Rightarrow>
                    if base64 = [] then Rejected (Error ''TTS generation failed'')
                    else Fulfilled base64)))"

subsection \<open>generateVideo (lines 144-199)\<close>

text \<open>
  An operation handle: \<^verbatim>\<open>operation.done\<close> (the name \<open>done\<close> is reserved, so \<open>isDone\<close>)
  and the value of \<^verbatim>\<open>operation.response?.generatedVideos?.[0]?.video?.uri\<close>.
\<close>

record VideoOperation =
  isDone :: bool
  uri :: "string option"

text \<open>
  One run of \<^verbatim>\<open>runGen\<close> meets the value of \<^verbatim>\<open>process.env.API_KEY\<close> at that time, what
  the submission \<^verbatim>\<open>generateVideos\<close> does for a prompt (a failure to build the client is a
  rejected submission), and the answers of the successive \<^verbatim>\<open>getVideosOperation\<close> polls.
  The answers are a list: when it runs out while the operation is not done, the next
  poll never answers.
\<close>

record Attempt =
  apiKey :: string
  submit :: "string \<Rightarrow> (Thrown, VideoOperation) promise"
  polls :: "(Thrown, VideoOperation) promise list"

text \<open>
  The polling loop \<^verbatim>\<open>while (!operation.done)\<close>: the calls made and the operation it
  ends with. The timer between two polls always fires and is left out.
\<close>

fun pollUntilDone :: "VideoOperation \<Rightarrow> (Thrown, VideoOperation) promise list \<Rightarrow> Call list \<times> (Thrown, VideoOperation) promise" where
  "pollUntilDone operation [] =
     (if isDone operation then ([], Fulfilled operation) else ([GetVideosOperation], Pending))"
| "pollUntilDone operation (r # rs) =
     (if isDone operation then ([], Fulfilled operation)
      else (case r of
              Pending \<Rightarrow> ([GetVideosOperation], Pending)
            | Rejected e \<Rightarrow> ([GetVideosOperation], Rejected e)
            | Fulfilled next_operation \<Rightarrow>
                (case pollUntilDone next_operation rs of
                   (calls, res) \<Rightarrow> (GetVideosOperation # calls, res))))"

text \<open>
  \<^verbatim>\<open>if (videoUri)\<close> is JavaScript truthiness: a string that is present and not empty.
\<close>

definition withKey :: "string \<Rightarrow> VideoOperation \<Rightarrow> string option" where
  "withKey key operation =
     (case uri operation of
        None \<Rightarrow> None
      | Some u \<Rightarrow> if u = [] then None else Some (u @ ''&key='' @ key))"

definition runGen :: "Attempt \<Rightarrow> string \<Rightarrow> Call list \<times> (Thrown, string option) promise" where
  "runGen attempt p =
     (case submit attempt p of
        Pending \<Rightarrow> ([GenerateVideos], Pending)
      | Rejected e \<Rightarrow> ([GenerateVideos], Rejected e)
      | Fulfilled operation \<Rightarrow>
          (case pollUntilDone operation (polls attempt) of
             (calls, Pending) \<Rightarrow> (GenerateVideos # calls, Pending)
           | (calls, Rejected e) \<Rightarrow> (GenerateVideos # calls, Rejected e)
           | (calls, Fulfilled final) \<Rightarrow>
               (GenerateVideos # calls, Fulfilled (withKey (apiKey attempt) final))))"

text \<open>
  The classification of the \<^verbatim>\<open>catch\<close> block (lines 179-182) on an error object, in the
  source's order. \<^verbatim>\<open>e.message?.includes(...)\<close> is undefined, hence falsy, when there is
  no message.
\<close>

definition isNotFound :: "JsError \<Rightarrow> bool" where
  "isNotFound e =
     ((case message e of None \<Rightarrow> False
       | Some m \<Rightarrow> jsIncludes m ''Requested entity was not found'')
      \<or> jsIncludes (json e) ''Requested entity was not found''
      \<or> status e = JString ''NOT_FOUND''
      \<or> code e = JNumber 404)"

text \<open>
  The same four lines on any thrown value; \<open>None\<close> when evaluating them throws a
  \<^verbatim>\<open>TypeError\<close>. \<^verbatim>\<open>e.message\<close> throws on \<^verbatim>\<open>null\<close> and \<^verbatim>\<open>undefined\<close>; the call of
  \<^verbatim>\<open>includes\<close> throws on a message that has no such method; and when the message does
  not match, \<^verbatim>\<open>JSON.stringify(e).includes(...)\<close> is evaluated and throws on an object
  that does not serialise. The lines stand in the \<^verbatim>\<open>catch\<close> block, outside the inner
  \<^verbatim>\<open>try\<close>.
\<close>

fun classifyThrown :: "Thrown \<Rightarrow> bool option" where
  "classifyThrown (ErrorObject e) = Some (isNotFound e)"
| "classifyThrown Nullish = None"
| "classifyThrown OddMessage = None"
| "classifyThrown (Unserialisable None) = None"
| "classifyThrown (Unserialisable (Some m)) =
     (if jsIncludes m ''Requested entity was not found'' then Some True else None)"

text \<open>The \<^verbatim>\<open>TypeError\<close> such an evaluation throws (its message varies with the case).\<close>

definition typeError :: JsError where
  "typeError = Error ''TypeError''"

record VideoEnv =
  firstAttempt :: Attempt
  retryAttempt :: Attempt

text \<open>
  \<^verbatim>\<open>generateVideo\<close> returns the calls it made, in order, and what its promise does. An
  error thrown by the classification leaves the \<^verbatim>\<open>catch\<close> block and rejects the promise.
\<close>

definition generateVideo :: "Window \<Rightarrow> VideoEnv \<Rightarrow> string \<Rightarrow> Call list \<times> string option outcome" where
  "generateVideo window env p =
     (case runGen (firstAttempt env) p of
        (calls, Fulfilled r) \<Rightarrow> (calls, Fulfilled r)
      | (calls, Pending) \<Rightarrow> (calls, Pending)
      | (calls, Rejected e) \<Rightarrow>
          (case classifyThrown e of
             None \<Rightarrow> (calls, Rejected typeError)
           | Some False \<Rightarrow> (calls, Fulfilled None)
           | Some True \<Rightarrow>
               (case aistudio window of
                  None \<Rightarrow> (calls, Fulfilled None)
                | Some studio \<Rightarrow>
                    (case openSelectKey studio of
                       None \<Rightarrow> (calls, Fulfilled None)
                     | Some Pending \<Rightarrow> (calls @ [OpenSelectKey], Pending)
                     | Some (Rejected retryError) \<Rightarrow> (calls @ [OpenSelectKey], Fulfilled None)
                     | Some (Fulfilled u) \<Rightarrow>
                         (case runGen (retryAttempt env) p of
                            (calls2, Fulfilled r) \<Rightarrow> (calls @ OpenSelectKey # calls2, Fulfilled r)
                          | (calls2, Pending) \<Rightarrow> (calls @ OpenSelectKey # calls2, Pending)
                          | (calls2, Rejected retryError) \<Rightarrow>
                              (calls @ OpenSelectKey # calls2, Fulfilled None))))))"

subsection \<open>checkApiKey (lines 8-15)\<close>

text \<open>
  The log of a call records when a method of the environment is invoked and how the
  promise it returns settles, in the order in which this happens.
\<close>

datatype Event = Invoked Call | Resolved Call | Failed Call

definition checkApiKey :: "Window \<Rightarrow> Event list \<times> unit outcome" where
  "checkApiKey window =
     (case aistudio window of
        None \<Rightarrow> ([], Fulfilled ())
      | Some studio \<Rightarrow>
          (case hasSelectedApiKey studio of
             None \<Rightarrow> ([], Fulfilled ())
           | Some Pending \<Rightarrow> ([Invoked HasSelectedApiKey], Pending)
           | Some (Rejected e) \<Rightarrow>
               ([Invoked HasSelectedApiKey, Failed HasSelectedApiKey], Rejected e)
           | Some (Fulfilled hasKey) \<Rightarrow>
               if hasKey then ([Invoked HasSelectedApiKey, Resolved HasSelectedApiKey], Fulfilled ())
               else
                 (case openSelectKey studio of
                    None \<Rightarrow>
                      ([Invoked HasSelectedApiKey, Resolved HasSelectedApiKey], Fulfilled ())
                  | Some Pending \<Rightarrow>
                      ([Invoked HasSelectedApiKey, Resolved HasSelectedApiKey,
                        Invoked OpenSelectKey], Pending)
                  | Some (Rejected e) \<Rightarrow>
                      ([Invoked HasSelectedApiKey, Resolved HasSelectedApiKey,
                        Invoked OpenSelectKey, Failed OpenSelectKey], Rejected e)
                  | Some (Fulfilled u) \<Rightarrow>
                      ([Invoked HasSelectedApiKey, Resolved HasSelectedApiKey,
                        Invoked OpenSelectKey, Resolved OpenSelectKey], Fulfilled ()))))"

section \<open>The component's handlers (src/App.tsx)\<close>

subsection \<open>startRecording (lines 24-48)\<close>

text \<open>
  What the browser does for one start: the promise of \<^verbatim>\<open>getUserMedia\<close>, and whether
  \<^verbatim>\<open>new MediaRecorder\<close> or \<^verbatim>\<open>recorder.start()\<close> throws. The \<^verbatim>\<open>catch\<close> block ignores which
  error it caught.
\<close>

record MediaDevices =
  getUserMedia :: "MediaStream outcome"
  newRecorderThrows :: bool
  recorderStartThrows :: bool

definition startError :: string where
  "startError = ''Microphone access denied or API Key missing. Please check permissions.''"

definition startRecording :: "Window \<Rightarrow> MediaDevices \<Rightarrow> App \<Rightarrow> Event list \<times> App" where
  "startRecording window devices s =
     (case checkApiKey window of
        (evs, Pending) \<Rightarrow> (evs, s)
      | (evs, Rejected err) \<Rightarrow> (evs, s\<lparr>error := Some startError\<rparr>)
      | (evs, Fulfilled u) \<Rightarrow>
          (case getUserMedia devices of
             Pending \<Rightarrow> (evs @ [Invoked GetUserMedia], s)
           | Rejected err \<Rightarrow>
               (evs @ [Invoked GetUserMedia, Failed GetUserMedia], s\<lparr>error := Some startError\<rparr>)
           | Fulfilled audioStream \<Rightarrow>
               (evs @ [Invoked GetUserMedia, Resolved GetUserMedia],
                if newRecorderThrows devices \<or> recorderStartThrows devices
                then s\<lparr>stream := Some audioStream, error := Some startError\<rparr>
                else s\<lparr>stream := Some audioStream,
                       mediaRecorder := Some \<lparr>recorderState = recording\<rparr>,
                       state := RECORDING, error := None\<rparr>)))"

subsection \<open>stopRecording (lines 50-57)\<close>

text \<open>
  Returns whether \<^verbatim>\<open>mediaRecorder.stop()\<close> was called, which queues the recorder's
  \<^verbatim>\<open>stop\<close> event and so the handler \<^verbatim>\<open>handleRecordingStop\<close>.
\<close>

definition stopRecording :: "App \<Rightarrow> bool \<times> App" where
  "stopRecording s =
     (case mediaRecorder s of
        None \<Rightarrow> (False, s)
      | Some recorder \<Rightarrow>
          if recorderState recorder \<noteq> inactive
          then (True, s\<lparr>mediaRecorder := Some (recorder\<lparr>recorderState := inactive\<rparr>),
                       stream := None, state := ANALYZING\<rparr>)
          else (False, s))"

subsection \<open>handleRecordingStop (lines 59-105)\<close>

text \<open>The synchronous stretches of the handler, between its two \<^verbatim>\<open>await\<close>s.\<close>

definition beginAnalysis :: "App \<Rightarrow> App" where
  "beginAnalysis s = s\<lparr>statusMessage := ''Extracting personality vector...''\<rparr>"

definition publishAnalysis :: "AnalyzerResponse \<Rightarrow> App \<Rightarrow> App" where
  "publishAnalysis analysis s =
     s\<lparr>personality := Some (resp_personality analysis),
       state := GENERATING_ASSETS,
       statusMessage := ''Generating multimodal experience...''\<rparr>"

definition initialAssets :: "AnalyzerResponse \<Rightarrow> string option \<Rightarrow> string \<Rightarrow> GeneratedAssets" where
  "initialAssets analysis art audio =
     \<lparr>artPrompt = prompt (resp_art analysis),
      artBase64 = art,
      storyText = narrative (resp_story analysis),
      musicDescription = resp_music analysis,
      videoUri = None,
      audioBase64 = Some audio\<rparr>"

definition publishAssets :: "AnalyzerResponse \<Rightarrow> string option \<Rightarrow> string \<Rightarrow> App \<Rightarrow> App" where
  "publishAssets analysis art audio s =
     s\<lparr>assets := Some (initialAssets analysis art audio), state := SHOWCASE\<rparr>"

text \<open>\<^verbatim>\<open>err.message || "Something went wrong during generation."\<close>\<close>

definition errorText :: "JsError \<Rightarrow> string" where
  "errorText err =
     (case message err of
        None \<Rightarrow> ''Something went wrong during generation.''
      | Some m \<Rightarrow> if m = [] then ''Something went wrong during generation.'' else m)"

definition catchFailure :: "JsError \<Rightarrow> App \<Rightarrow> App" where
  "catchFailure err s = s\<lparr>error := Some (errorText err), state := ERROR\<rparr>"

text \<open>
  The completion callback of the video promise (lines 94-98), with the functional
  update \<^verbatim>\<open>prev => prev ? { ...prev, videoUri: uri } : null\<close> applied to the assets of
  the moment.
\<close>

definition patchVideo :: "string option \<Rightarrow> App \<Rightarrow> App" where
  "patchVideo r s =
     (case r of
        None \<Rightarrow> s
      | Some u \<Rightarrow>
          if u = [] then s
          else s\<lparr>assets := (case assets s of
                              None \<Rightarrow> None
                            | Some prev \<Rightarrow> Some (prev\<lparr>videoUri := Some u\<rparr>))\<rparr>)"

text \<open>
  The two asset calls the handler starts after the analysis and joins with
  \<^verbatim>\<open>Promise.all\<close>. Both build their client from the same \<^verbatim>\<open>process.env.API_KEY\<close>.
\<close>

definition assetBarrier :: "GenerateContent \<Rightarrow> bool \<Rightarrow> AnalyzerResponse \<Rightarrow> (string option \<times> string) outcome" where
  "assetBarrier ai artFirst analysis =
     promiseAll artFirst
       (snd (generateArt ai (prompt (resp_art analysis))))
       (generateSpeech ai (narrative (resp_story analysis))
          (voice_name (resp_tts analysis)))"

text \<open>
  The handler up to the point where it returns: the state it leaves, and the prompt of
  the video task it has started, if any. The video task runs on after the handler.
\<close>

record Services =
  analysisEnv :: AnalysisEnv
  generateContent :: GenerateContent
  artFirst :: bool

definition handleRecordingStop :: "Services \<Rightarrow> App \<Rightarrow> App \<times> string option" where
  "handleRecordingStop services s =
     (case analyzeAudioPersonality (analysisEnv services) of
        Pending \<Rightarrow> (beginAnalysis s, None)
      | Rejected err \<Rightarrow> (catchFailure err (beginAnalysis s), None)
      | Fulfilled analysis \<Rightarrow>
          (case assetBarrier (generateContent services) (artFirst services) analysis of
             Pending \<Rightarrow> (publishAnalysis analysis (beginAnalysis s), None)
           | Rejected err \<Rightarrow>
               (catchFailure err (publishAnalysis analysis (beginAnalysis s)), None)
           | Fulfilled (art, audio) \<Rightarrow>
               (publishAssets analysis art audio
                  (publishAnalysis analysis (beginAnalysis s)),
                Some (video_prompt (resp_video analysis)))))"

subsection \<open>What the component renders (lines 114-232)\<close>

text \<open>
  The error text is rendered only inside the block guarded by
  \<^verbatim>\<open>state === AppState.ERROR\<close> (lines 144-156); no other block reads \<^verbatim>\<open>error\<close>.
\<close>

definition renderedError :: "App \<Rightarrow> string option" where
  "renderedError s = (if state s = ERROR then error s else None)"

text \<open>
  The buttons: the microphone button runs \<^verbatim>\<open>startRecording\<close> in \<open>IDLE\<close> and
  \<^verbatim>\<open>stopRecording\<close> in \<open>RECORDING\<close> (lines 159, 173); \<^verbatim>\<open>reset\<close> is offered in
  \<open>SHOWCASE\<close> (line 133) and in \<open>ERROR\<close> (line 150).
\<close>

definition offersStart :: "App \<Rightarrow> bool" where
  "offersStart s = (state s = IDLE)"

definition offersStop :: "App \<Rightarrow> bool" where
  "offersStop s = (state s = RECORDING)"

definition offersReset :: "App \<Rightarrow> bool" where
  "offersReset s = (state s = SHOWCASE \<or> state s = ERROR)"

section \<open>The component as a transition system\<close>

text \<open>
  Between two \<^verbatim>\<open>await\<close>s the handlers run without interruption; at an \<^verbatim>\<open>await\<close> any
  other callback of the event loop may run. A world is the component's state, the point
  the one run of \<^verbatim>\<open>handleRecordingStop\<close> has reached, and the prompts of the video
  promises still in flight, oldest first.
\<close>

datatype Stage = NoRun | StopQueued | AwaitAnalysis | AwaitBarrier AnalyzerResponse

record World =
  app :: App
  stage :: Stage
  videoTasks :: "string list"

definition initialWorld :: World where
  "initialWorld = \<lparr>app = initialApp, stage = NoRun, videoTasks = []\<rparr>"

text \<open>
  The steps. A click is possible only on a button that is rendered; a promise settles
  only once, so a settled video promise leaves the list; a video promise that is rejected
  runs no callback and makes no step. \<open>ClickStart\<close> runs \<^verbatim>\<open>startRecording\<close> as a whole
  (a second click during its \<^verbatim>\<open>await\<close>s is not modelled).
\<close>

datatype Step =
    ClickStart Window MediaDevices
  | ClickStop
  | OnStop
  | AnalysisSettled AnalysisEnv
  | BarrierSettled GenerateContent bool
  | VideoSettled nat Window VideoEnv
  | ClickReset

fun step :: "Step \<Rightarrow> World \<Rightarrow> World option" where
  "step (ClickStart window devices) w =
     (if offersStart (app w)
      then Some (w\<lparr>app := snd (startRecording window devices (app w))\<rparr>)
      else None)"
| "step ClickStop w =
     (if offersStop (app w)
      then (case stopRecording (app w) of
              (True, s) \<Rightarrow> Some (w\<lparr>app := s, stage := StopQueued\<rparr>)
            | (False, s) \<Rightarrow> Some (w\<lparr>app := s\<rparr>))
      else None)"
| "step OnStop w =
     (if stage w = StopQueued
      then Some (w\<lparr>app := beginAnalysis (app w), stage := AwaitAnalysis\<rparr>)
      else None)"
| "step (AnalysisSettled env) w =
     (if stage w = AwaitAnalysis
      then (case analyzeAudioPersonality env of
              Pending \<Rightarrow> None
            | Rejected err \<Rightarrow> Some (w\<lparr>app := catchFailure err (app w), stage := NoRun\<rparr>)
            | Fulfilled analysis \<Rightarrow>
                Some (w\<lparr>app := publishAnalysis analysis (app w),
                        stage := AwaitBarrier analysis\<rparr>))
      else None)"
| "step (BarrierSettled gc first) w =
     (case stage w of
        AwaitBarrier analysis \<Rightarrow>
          (case assetBarrier gc first analysis of
             Pending \<Rightarrow> None
           | Rejected err \<Rightarrow> Some (w\<lparr>app := catchFailure err (app w), stage := NoRun\<rparr>)
           | Fulfilled (art, audio) \<Rightarrow>
               Some (w\<lparr>app := publishAssets analysis art audio (app w),
                       stage := NoRun,
                       videoTasks := videoTasks w @ [video_prompt (resp_video analysis)]\<rparr>))
      | _ \<Rightarrow> None)"
| "step (VideoSettled i window env) w =
     (if i < length (videoTasks w)
      then (case snd (generateVideo window env (videoTasks w ! i)) of
              Fulfilled r \<Rightarrow>
                Some (w\<lparr>app := patchVideo r (app w),
                        videoTasks := take i (videoTasks w) @ drop (Suc i) (videoTasks w)\<rparr>)
            | _ \<Rightarrow> None)
      else None)"
| "step ClickReset w =
     (if offersReset (app w) then Some (w\<lparr>app := reset (app w)\<rparr>) else None)"

fun run :: "Step list \<Rightarrow> World \<Rightarrow> World option" where
  "run [] w = Some w"
| "run (x # xs) w = (case step x w of None \<Rightarrow> None | Some w' \<Rightarrow> run xs w')"

section \<open>Observations on the logs\<close>

text \<open>
  A run of \<^verbatim>\<open>runGen\<close> submits once, so the submissions in the log of \<^verbatim>\<open>generateVideo\<close>
  count its attempts (one more than its retries); the calls of \<^verbatim>\<open>openSelectKey\<close> count
  the re-authorization prompts.
\<close>

definition attempts :: "Call list \<Rightarrow> nat" where
  "attempts calls = count_list calls GenerateVideos"

definition prompts :: "Call list \<Rightarrow> nat" where
  "prompts calls = count_list calls OpenSelectKey"

text \<open>
  The test \<^verbatim>\<open>window.aistudio && window.aistudio.openSelectKey\<close> (line 186): the prompt
  the environment offers, if it offers one.
\<close>

definition selectKeyPrompt :: "Window \<Rightarrow> unit outcome option" where
  "selectKeyPrompt window =
     (case aistudio window of None \<Rightarrow> None | Some studio \<Rightarrow> openSelectKey studio)"




text \<open>
  The two ways a tier of the image generation fails, in the words of the specification:
  the call throws, or the response carries no image payload. A response carries an
  image payload when one of its parts has inline data that is present and not empty.
\<close>

definition imagePayload :: "Part \<Rightarrow> bool" where
  "imagePayload part =
     (case inlineData part of
        None \<Rightarrow> False
      | Some d \<Rightarrow> (case data d of None \<Rightarrow> False | Some s \<Rightarrow> s \<noteq> []))"

definition noImagePayload :: "GenerateContentResponse \<Rightarrow> bool" where
  "noImagePayload response =
     (case candidateParts response of
        None \<Rightarrow> True
      | Some parts \<Rightarrow> \<not> list_ex imagePayload parts)"

definition tierFails :: "Send \<Rightarrow> GenerateContentRequest \<Rightarrow> bool" where
  "tierFails send request =
     (case send request of
        Rejected e \<Rightarrow> True
      | Fulfilled response \<Rightarrow> noImagePayload response
      | Pending \<Rightarrow> False)"

text \<open>
  The test the code makes is another one: whether some part has \<^verbatim>\<open>inlineData\<close>, whatever
  is in it. The two agree on an answer whose first part with \<^verbatim>\<open>inlineData\<close>, if there is
  one, carries data.
\<close>

text \<open>What the code returns for a response that passes its test (lines 100 and 119).\<close>

definition firstImage :: "GenerateContentResponse \<Rightarrow> string option" where
  "firstImage response =
     (case findInlineData response of None \<Rightarrow> None | Some d \<Rightarrow> data d)"

definition carriesData :: "Send \<Rightarrow> GenerateContentRequest \<Rightarrow> bool" where
  "carriesData send request =
     (case send request of
        Fulfilled response \<Rightarrow>
          (case findInlineData response of
             None \<Rightarrow> True
           | Some d \<Rightarrow> (case data d of None \<Rightarrow> False | Some s \<Rightarrow> s \<noteq> []))
      | _ \<Rightarrow> True)"

section \<open>Invariant of the transition system\<close>

text \<open>
  What holds in every world reached from the initial one: the stage of the run and the
  phase agree, the personality of the analysis is the published one while the asset
  calls are awaited, and assets are present exactly in phase \<open>SHOWCASE\<close>.
\<close>

definition consistent :: "World \<Rightarrow> bool" where
  "consistent w =
     ((case stage w of
         NoRun \<Rightarrow> state (app w) \<in> {IDLE, RECORDING, SHOWCASE, ERROR}
       | StopQueued \<Rightarrow> state (app w) = ANALYZING
       | AwaitAnalysis \<Rightarrow> state (app w) = ANALYZING
       | AwaitBarrier analysis \<Rightarrow>
           state (app w) = GENERATING_ASSETS
           \<and> personality (app w) = Some (resp_personality analysis))
      \<and> (assets (app w) = None) = (state (app w) \<noteq> SHOWCASE))"

text \<open>The video reference of the published assets (null when there are none).\<close>

definition publishedVideo :: "App \<Rightarrow> string option" where
  "publishedVideo s = (case assets s of None \<Rightarrow> None | Some a \<Rightarrow> videoUri a)"

text \<open>
  In a list of steps: the settlings of video promises, and the settlings of the barrier
  (each starts at most one video task).
\<close>

fun isVideoSettled :: "Step \<Rightarrow> bool" where
  "isVideoSettled (VideoSettled i window env) = True"
| "isVideoSettled _ = False"

fun isBarrierSettled :: "Step \<Rightarrow> bool" where
  "isBarrierSettled (BarrierSettled gc first) = True"
| "isBarrierSettled _ = False"

definition settlings :: "Step list \<Rightarrow> nat" where
  "settlings xs = length (filter isVideoSettled xs)"

definition barriers :: "Step list \<Rightarrow> nat" where
  "barriers xs = length (filter isBarrierSettled xs)"

section \<open>Observations on startRecording\<close>




text \<open>
  The start fails when an awaited promise is rejected or the recorder throws: the cases
  in which the \<^verbatim>\<open>catch\<close> block of \<^verbatim>\<open>startRecording\<close> runs.
\<close>

definition startFails :: "Window \<Rightarrow> MediaDevices \<Rightarrow> bool" where
  "startFails window devices =
     (case snd (checkApiKey window) of
        Rejected e \<Rightarrow> True
      | Pending \<Rightarrow> False
      | Fulfilled u \<Rightarrow>
          (case getUserMedia devices of
             Rejected e \<Rightarrow> True
           | Pending \<Rightarrow> False
           | Fulfilled audioStream \<Rightarrow> newRecorderThrows devices \<or> recorderStartThrows devices))"


section \<open>Concrete scenarios\<close>

text \<open>The inputs at which the theorems below are evaluated.\<close>

definition noStudio :: Window where
  "noStudio = \<lparr>aistudio = None\<rparr>"

definition micGranted :: MediaDevices where
  "micGranted =
     \<lparr>getUserMedia = Fulfilled \<lparr>tracksLive = True\<rparr>,
      newRecorderThrows = False, recorderStartThrows = False\<rparr>"

definition sampleAnalysis :: AnalyzerResponse where
  "sampleAnalysis =
     \<lparr>resp_personality =
        \<lparr>traits = [''Calm''], energy = 2, mood = ''Serene'',
         colors = \<lparr>primary = ''#aabbcc'', secondary = ''#112233'', accent = ''#ffffff''\<rparr>\<rparr>,
      resp_music = \<lparr>genre = ''ambient'', bpm = 70, instruments = [''piano''], vibe = ''still''\<rparr>,
      resp_art = \<lparr>prompt = ''a misty lake'', style = ''watercolor''\<rparr>,
      resp_story = \<lparr>narrative = ''You are calm.''\<rparr>,
      resp_video = \<lparr>video_prompt = ''slow pan over a lake''\<rparr>,
      resp_tts = \<lparr>voice_name = ''Kore'', speaking_rate = 1, pitch = ''low''\<rparr>\<rparr>"

text \<open>An analysis call whose response carries no text: line 75 throws.\<close>

definition noAnalysisText :: AnalysisEnv where
  "noAnalysisText =
     \<lparr>analysisClient = None, blobToBase64 = Fulfilled ''UklGRg=='',
      analysisContent = (\<lambda>audio. Fulfilled \<lparr>responseText = None, candidateParts = None\<rparr>),
      jsonParse = (\<lambda>txt. None),
      syntaxError = Error ''Unexpected end of JSON input''\<rparr>"

text \<open>The state of a Session whose analysis failed, before the user resets it.\<close>

definition failedApp :: App where
  "failedApp =
     \<lparr>state = ERROR, stream = None, mediaRecorder = Some \<lparr>recorderState = inactive\<rparr>,
      personality = None, assets = None, error = Some ''No analysis generated'',
      statusMessage = ''Extracting personality vector...''\<rparr>"


definition quotaError :: JsError where
  "quotaError =
     \<lparr>message = Some ''Quota exceeded'', status = JString ''RESOURCE_EXHAUSTED'',
      code = JNumber 429, json = ''{status:RESOURCE_EXHAUSTED,code:429}''\<rparr>"

definition rejectingAttempt :: "JsError \<Rightarrow> Attempt" where
  "rejectingAttempt e =
     \<lparr>apiKey = ''key-1'', submit = (\<lambda>p. Rejected (ErrorObject e)), polls = []\<rparr>"

definition rejectingVideo :: "JsError \<Rightarrow> VideoEnv" where
  "rejectingVideo e = \<lparr>firstAttempt = rejectingAttempt e, retryAttempt = rejectingAttempt e\<rparr>"

text \<open>A window with \<^verbatim>\<open>aistudio\<close>, no key selected, and the given behaviour of the prompt.\<close>

definition studioWindow :: "unit outcome \<Rightarrow> Window" where
  "studioWindow sel =
     \<lparr>aistudio = Some \<lparr>hasSelectedApiKey = Some (Fulfilled False), openSelectKey = Some sel\<rparr>\<rparr>"

text \<open>
  A service whose high-fidelity image model is overloaded, while the fallback model and
  the speech model answer with a payload; and an analysis that yields \<open>sampleAnalysis\<close>.
\<close>

definition payload :: "string \<Rightarrow> GenerateContentResponse" where
  "payload d =
     \<lparr>responseText = None,
      candidateParts = Some [\<lparr>inlineData = Some \<lparr>data = Some d\<rparr>\<rparr>]\<rparr>"

definition primaryDownSend :: Send where
  "primaryDownSend request =
     (if model request = ''gemini-3-pro-image-preview''
      then Rejected (Error ''The model is overloaded.'')
      else if model request = ''gemini-2.5-flash-image''
      then Fulfilled (payload ''iVBORw0KGgo='')
      else Fulfilled (payload ''SUQzBAAAAAAA''))"

definition primaryDown :: GenerateContent where
  "primaryDown = Client primaryDownSend"

definition analysisOf :: "AnalyzerResponse \<Rightarrow> AnalysisEnv" where
  "analysisOf analysis =
     \<lparr>analysisClient = None, blobToBase64 = Fulfilled ''UklGRg=='',
      analysisContent =
        (\<lambda>audio. Fulfilled \<lparr>responseText = Some ''{...}'', candidateParts = None\<rparr>),
      jsonParse = (\<lambda>txt. Some analysis),
      syntaxError = Error ''Unexpected end of JSON input''\<rparr>"

definition primaryDownServices :: Services where
  "primaryDownServices =
     \<lparr>analysisEnv = analysisOf sampleAnalysis, generateContent = primaryDown,
      artFirst = True\<rparr>"

text \<open>
  Services for the asset calls: every model answers with a payload; the speech model is
  rejected; both image models fail (the first throws, the second answers without parts)
  while the speech model answers.
\<close>

definition allUp :: GenerateContent where
  "allUp =
     Client (\<lambda>request.
       if model request = ''gemini-2.5-flash-preview-tts''
       then Fulfilled (payload ''SUQzBAAAAAAA'')
       else Fulfilled (payload ''iVBORw0KGgo=''))"


definition imagesDown :: GenerateContent where
  "imagesDown =
     Client (\<lambda>request.
       if model request = ''gemini-3-pro-image-preview''
       then Rejected (Error ''The model is overloaded.'')
       else if model request = ''gemini-2.5-flash-image''
       then Fulfilled \<lparr>responseText = Some ''I cannot draw this.'', candidateParts = Some []\<rparr>
       else Fulfilled (payload ''SUQzBAAAAAAA''))"

definition servicesWith :: "GenerateContent \<Rightarrow> Services" where
  "servicesWith gc =
     \<lparr>analysisEnv = analysisOf sampleAnalysis, generateContent = gc, artFirst = True\<rparr>"

text \<open>
  The first recording of a fresh component, up to the moment its analysis has been
  published and the two asset calls are awaited.
\<close>

definition recordThenAnalyze :: "AnalyzerResponse \<Rightarrow> Step list" where
  "recordThenAnalyze analysis =
     [ClickStart noStudio micGranted, ClickStop, OnStop, AnalysisSettled (analysisOf analysis)]"

definition composingApp :: App where
  "composingApp =
     \<lparr>state = GENERATING_ASSETS, stream = None,
      mediaRecorder = Some \<lparr>recorderState = inactive\<rparr>,
      personality = Some (resp_personality sampleAnalysis), assets = None, error = None,
      statusMessage = ''Generating multimodal experience...''\<rparr>"

definition composingWorld :: World where
  "composingWorld = \<lparr>app = composingApp, stage = AwaitBarrier sampleAnalysis, videoTasks = []\<rparr>"

definition readyApp :: App where
  "readyApp =
     \<lparr>state = SHOWCASE, stream = None,
      mediaRecorder = Some \<lparr>recorderState = inactive\<rparr>,
      personality = Some (resp_personality sampleAnalysis),
      assets = Some (initialAssets sampleAnalysis (Some ''iVBORw0KGgo='') ''SUQzBAAAAAAA''),
      error = None,
      statusMessage = ''Generating multimodal experience...''\<rparr>"

definition readyWorld :: World where
  "readyWorld = \<lparr>app = readyApp, stage = NoRun, videoTasks = [''slow pan over a lake'']\<rparr>"

text \<open>
  A second analysis, for a second Session, and a video service whose reference names the
  prompt it was given.
\<close>

definition secondAnalysis :: AnalyzerResponse where
  "secondAnalysis =
     \<lparr>resp_personality =
        \<lparr>traits = [''Bold''], energy = 9, mood = ''Electric'',
         colors = \<lparr>primary = ''#ff00aa'', secondary = ''#00ffee'', accent = ''#ffee00''\<rparr>\<rparr>,
      resp_music = \<lparr>genre = ''EDM'', bpm = 140, instruments = [''synth''], vibe = ''rush''\<rparr>,
      resp_art = \<lparr>prompt = ''a neon city'', style = ''cyberpunk''\<rparr>,
      resp_story = \<lparr>narrative = ''You are bold.''\<rparr>,
      resp_video = \<lparr>video_prompt = ''fast ride through neon streets''\<rparr>,
      resp_tts = \<lparr>voice_name = ''Puck'', speaking_rate = 1, pitch = ''high''\<rparr>\<rparr>"

definition echoVideo :: VideoEnv where
  "echoVideo =
     \<lparr>firstAttempt =
        \<lparr>apiKey = ''key-1'',
         submit = (\<lambda>p. Fulfilled \<lparr>isDone = True, uri = Some (''https://videos.example/'' @ p)\<rparr>),
         polls = []\<rparr>,
      retryAttempt = rejectingAttempt quotaError\<rparr>"

text \<open>
  Two Sessions in a row: the first reaches \<open>SHOWCASE\<close> and is reset while its video task
  is still in flight; the second reaches \<open>SHOWCASE\<close> too.
\<close>

definition twoSessions :: "Step list" where
  "twoSessions =
     recordThenAnalyze sampleAnalysis @ [BarrierSettled allUp True, ClickReset]
     @ recordThenAnalyze secondAnalysis @ [BarrierSettled allUp True]"

definition secondReadyApp :: App where
  "secondReadyApp =
     \<lparr>state = SHOWCASE, stream = None,
      mediaRecorder = Some \<lparr>recorderState = inactive\<rparr>,
      personality = Some (resp_personality secondAnalysis),
      assets = Some (initialAssets secondAnalysis (Some ''iVBORw0KGgo='') ''SUQzBAAAAAAA''),
      error = None,
      statusMessage = ''Generating multimodal experience...''\<rparr>"

definition secondReadyWorld :: World where
  "secondReadyWorld =
     \<lparr>app = secondReadyApp, stage = NoRun,
      videoTasks = [''slow pan over a lake'', ''fast ride through neon streets'']\<rparr>"

text \<open>The references \<open>echoVideo\<close> yields for the video prompts of the two analyses.\<close>

definition sampleVideo :: string where
  "sampleVideo = ''https://videos.example/slow pan over a lake&key=key-1''"

definition secondVideo :: string where
  "secondVideo = ''https://videos.example/fast ride through neon streets&key=key-1''"

text \<open>The first Session after its own video task has settled.\<close>

definition patchedWorld :: World where
  "patchedWorld =
     \<lparr>app = readyApp
        \<lparr>assets := Some ((initialAssets sampleAnalysis (Some ''iVBORw0KGgo='') ''SUQzBAAAAAAA'')
                          \<lparr>videoUri := Some sampleVideo\<rparr>)\<rparr>,
      stage = NoRun, videoTasks = []\<rparr>"

text \<open>
  The second Session after the video task of the first has settled, and after its own
  has settled as well.
\<close>

definition stalePatchedWorld :: World where
  "stalePatchedWorld =
     \<lparr>app = secondReadyApp
        \<lparr>assets := Some ((initialAssets secondAnalysis (Some ''iVBORw0KGgo='') ''SUQzBAAAAAAA'')
                          \<lparr>videoUri := Some sampleVideo\<rparr>)\<rparr>,
      stage = NoRun, videoTasks = [''fast ride through neon streets'']\<rparr>"

definition twicePatchedWorld :: World where
  "twicePatchedWorld =
     \<lparr>app = secondReadyApp
        \<lparr>assets := Some ((initialAssets secondAnalysis (Some ''iVBORw0KGgo='') ''SUQzBAAAAAAA'')
                          \<lparr>videoUri := Some secondVideo\<rparr>)\<rparr>,
      stage = NoRun, videoTasks = []\<rparr>"

text \<open>The user denies the microphone: \<^verbatim>\<open>getUserMedia\<close> is rejected.\<close>

definition micDenied :: MediaDevices where
  "micDenied =
     \<lparr>getUserMedia = Rejected (Error ''Permission denied''),
      newRecorderThrows = False, recorderStartThrows = False\<rparr>"

text \<open>
  An attempt whose submission is rejected with the given thrown value; and an attempt
  whose submission is accepted, whose first poll finds the operation not done, and whose
  second poll is rejected with it.
\<close>

definition throwingAttempt :: "Thrown \<Rightarrow> Attempt" where
  "throwingAttempt x = \<lparr>apiKey = ''key-1'', submit = (\<lambda>p. Rejected x), polls = []\<rparr>"

definition throwingVideo :: "Thrown \<Rightarrow> VideoEnv" where
  "throwingVideo x = \<lparr>firstAttempt = throwingAttempt x, retryAttempt = throwingAttempt x\<rparr>"

definition pollRejectedAttempt :: "Thrown \<Rightarrow> Attempt" where
  "pollRejectedAttempt x =
     \<lparr>apiKey = ''key-1'',
      submit = (\<lambda>p. Fulfilled \<lparr>isDone = False, uri = None\<rparr>),
      polls = [Fulfilled \<lparr>isDone = False, uri = None\<rparr>, Rejected x]\<rparr>"

definition pollRejectedVideo :: "Thrown \<Rightarrow> VideoEnv" where
  "pollRejectedVideo x =
     \<lparr>firstAttempt = pollRejectedAttempt x, retryAttempt = pollRejectedAttempt x\<rparr>"

text \<open>The error of a client that cannot be built: no API key is set.\<close>

definition keyError :: JsError where
  "keyError = Error ''An API Key must be set when running in a browser''"

text \<open>
  A service whose high-fidelity image model is overloaded and whose fallback model
  answers with a part that has \<^verbatim>\<open>inlineData\<close> but no \<^verbatim>\<open>data\<close> in it, while the speech
  model answers with a payload; and the Session the handler then publishes.
\<close>

definition dataless :: GenerateContentResponse where
  "dataless =
     \<lparr>responseText = None,
      candidateParts = Some [\<lparr>inlineData = Some \<lparr>data = None\<rparr>\<rparr>]\<rparr>"

definition datalessFallbackSend :: Send where
  "datalessFallbackSend request =
     (if model request = ''gemini-3-pro-image-preview''
      then Rejected (Error ''The model is overloaded.'')
      else if model request = ''gemini-2.5-flash-image''
      then Fulfilled dataless
      else Fulfilled (payload ''SUQzBAAAAAAA''))"

definition datalessFallback :: GenerateContent where
  "datalessFallback = Client datalessFallbackSend"

definition noImageApp :: App where
  "noImageApp =
     \<lparr>state = SHOWCASE, stream = None,
      mediaRecorder = Some \<lparr>recorderState = inactive\<rparr>,
      personality = Some (resp_personality sampleAnalysis),
      assets = Some (initialAssets sampleAnalysis None ''SUQzBAAAAAAA''),
      error = None,
      statusMessage = ''Generating multimodal experience...''\<rparr>"

definition noImageWorld :: World where
  "noImageWorld = \<lparr>app = noImageApp, stage = NoRun, videoTasks = [''slow pan over a lake'']\<rparr>"


section \<open>Reset (C6)\<close>

lemma failedApp_reached:
  "run [ClickStart noStudio micGranted, ClickStop, OnStop, AnalysisSettled noAnalysisText]
     initialWorld
   = Some \<lparr>app = failedApp, stage = NoRun, videoTasks = []\<rparr>"
  by (simp add: noStudio_def micGranted_def noAnalysisText_def initialWorld_def initialApp_def
      failedApp_def offersStart_def offersStop_def startRecording_def checkApiKey_def
      stopRecording_def beginAnalysis_def analyzeAudioPersonality_def catchFailure_def
      errorText_def Error_def)

text \<open>
  C6, as stated, fails: the Session \<open>failedApp\<close> is reached from the initial state by a
  recording whose analysis fails, it is in phase \<open>ERROR\<close>, and after \<open>reset\<close> its status
  message is still the one the failed run wrote, not the initial \<open>Ready to vibe\<close>.
\<close>

theorem reset_keeps_status_message_counterexample:
  "run [ClickStart noStudio micGranted, ClickStop, OnStop, AnalysisSettled noAnalysisText]
     initialWorld
   = Some \<lparr>app = failedApp, stage = NoRun, videoTasks = []\<rparr>
   \<and> state failedApp = ERROR
   \<and> statusMessage (reset failedApp) = ''Extracting personality vector...''
   \<and> statusMessage initialApp = ''Ready to vibe''
   \<and> reset failedApp \<noteq> initialApp"
  using failedApp_reached by (simp add: failedApp_def reset_def initialApp_def)

text \<open>
  C6, amended: from every state, hence from \<open>ERROR\<close> and from \<open>SHOWCASE\<close>, \<open>reset\<close>
  yields phase \<open>IDLE\<close> with no personality, no assets and no error; the status message,
  the stream and the recorder are left as they were.
\<close>

theorem reset_restores_session:
  "state (reset s) = IDLE \<and> personality (reset s) = None \<and> assets (reset s) = None
   \<and> error (reset s) = None \<and> statusMessage (reset s) = statusMessage s
   \<and> stream (reset s) = stream s \<and> mediaRecorder (reset s) = mediaRecorder s"
  by (simp add: reset_def)


section \<open>Video generation: retry policy and rejection (C3, C10)\<close>

lemma pollUntilDone_calls:
  "set (fst (pollUntilDone operation rs)) \<subseteq> {GetVideosOperation}"
  by (induction operation rs rule: pollUntilDone.induct)
     (auto split: promise.splits prod.splits)

lemma pollUntilDone_counts [simp]:
  "count_list (fst (pollUntilDone operation rs)) GenerateVideos = 0"
  "count_list (fst (pollUntilDone operation rs)) OpenSelectKey = 0"
  using pollUntilDone_calls [of operation rs] by (auto simp: count_list_0_iff)

lemma runGen_calls:
  "fst (runGen a p) =
     GenerateVideos # (case submit a p of
                         Fulfilled operation \<Rightarrow> fst (pollUntilDone operation (polls a))
                       | _ \<Rightarrow> [])"
  by (auto simp: runGen_def split: promise.splits prod.splits)

lemma runGen_counts [simp]:
  "attempts (fst (runGen a p)) = 1" "prompts (fst (runGen a p)) = 0"
  by (simp_all add: runGen_calls attempts_def prompts_def split: promise.splits)

lemma attempts_simps [simp]:
  "attempts [] = 0"
  "attempts (xs @ ys) = attempts xs + attempts ys"
  "attempts (OpenSelectKey # ys) = attempts ys"
  by (simp_all add: attempts_def)

lemma prompts_simps [simp]:
  "prompts [] = 0"
  "prompts (xs @ ys) = prompts xs + prompts ys"
  "prompts (OpenSelectKey # ys) = Suc (prompts ys)"
  by (simp_all add: prompts_def)

text \<open>\<^verbatim>\<open>generateVideo\<close> with the test of line 186 folded into \<open>selectKeyPrompt\<close>.\<close>

lemma generateVideo_alt:
  "generateVideo window env p =
     (case runGen (firstAttempt env) p of
        (calls, Fulfilled r) \<Rightarrow> (calls, Fulfilled r)
      | (calls, Pending) \<Rightarrow> (calls, Pending)
      | (calls, Rejected x) \<Rightarrow>
          (case classifyThrown x of
             None \<Rightarrow> (calls, Rejected typeError)
           | Some False \<Rightarrow> (calls, Fulfilled None)
           | Some True \<Rightarrow>
               (case selectKeyPrompt window of
                  None \<Rightarrow> (calls, Fulfilled None)
                | Some Pending \<Rightarrow> (calls @ [OpenSelectKey], Pending)
                | Some (Rejected retryError) \<Rightarrow> (calls @ [OpenSelectKey], Fulfilled None)
                | Some (Fulfilled u) \<Rightarrow>
                    (case runGen (retryAttempt env) p of
                       (calls2, Fulfilled r) \<Rightarrow> (calls @ OpenSelectKey # calls2, Fulfilled r)
                     | (calls2, Pending) \<Rightarrow> (calls @ OpenSelectKey # calls2, Pending)
                     | (calls2, Rejected retryError) \<Rightarrow>
                         (calls @ OpenSelectKey # calls2, Fulfilled None)))))"
proof (cases "runGen (firstAttempt env) p")
  case (Pair calls r)
  then show ?thesis
    by (cases r; cases "aistudio window")
       (simp_all add: generateVideo_def selectKeyPrompt_def split: option.splits bool.splits)
qed

lemma generateVideo_unreadable:
  assumes "snd (runGen (firstAttempt env) p) = Rejected x" "classifyThrown x = None"
  shows "generateVideo window env p = (fst (runGen (firstAttempt env) p), Rejected typeError)"
  using assms by (cases "runGen (firstAttempt env) p") (simp add: generateVideo_def)

lemma generateVideo_first_settles:
  "snd (runGen (firstAttempt env) p) = Fulfilled r \<Longrightarrow>
     generateVideo window env p = (fst (runGen (firstAttempt env) p), Fulfilled r)"
  "snd (runGen (firstAttempt env) p) = Pending \<Longrightarrow>
     generateVideo window env p = (fst (runGen (firstAttempt env) p), Pending)"
  by (cases "runGen (firstAttempt env) p"; simp add: generateVideo_def)+

lemma generateVideo_other_error:
  assumes "snd (runGen (firstAttempt env) p) = Rejected x" "classifyThrown x = Some False"
  shows "generateVideo window env p = (fst (runGen (firstAttempt env) p), Fulfilled None)"
  using assms by (cases "runGen (firstAttempt env) p") (simp add: generateVideo_def)

lemma generateVideo_no_prompt:
  assumes "snd (runGen (firstAttempt env) p) = Rejected x" "classifyThrown x = Some True"
    "selectKeyPrompt window = None"
  shows "generateVideo window env p = (fst (runGen (firstAttempt env) p), Fulfilled None)"
  using assms by (cases "runGen (firstAttempt env) p") (simp add: generateVideo_alt)

lemma generateVideo_prompt_rejected:
  assumes "snd (runGen (firstAttempt env) p) = Rejected x" "classifyThrown x = Some True"
    "selectKeyPrompt window = Some (Rejected e')"
  shows "generateVideo window env p =
    (fst (runGen (firstAttempt env) p) @ [OpenSelectKey], Fulfilled None)"
  using assms by (cases "runGen (firstAttempt env) p") (simp add: generateVideo_alt)

lemma generateVideo_prompt_pending:
  assumes "snd (runGen (firstAttempt env) p) = Rejected x" "classifyThrown x = Some True"
    "selectKeyPrompt window = Some Pending"
  shows "generateVideo window env p =
    (fst (runGen (firstAttempt env) p) @ [OpenSelectKey], Pending)"
  using assms by (cases "runGen (firstAttempt env) p") (simp add: generateVideo_alt)

lemma generateVideo_retry:
  assumes "snd (runGen (firstAttempt env) p) = Rejected x" "classifyThrown x = Some True"
    "selectKeyPrompt window = Some (Fulfilled u)"
  shows "generateVideo window env p =
    (fst (runGen (firstAttempt env) p) @ OpenSelectKey # fst (runGen (retryAttempt env) p),
     case snd (runGen (retryAttempt env) p) of
       Rejected e2 \<Rightarrow> Fulfilled None
     | Fulfilled r \<Rightarrow> Fulfilled r
     | Pending \<Rightarrow> Pending)"
  using assms by (cases "runGen (firstAttempt env) p"; cases "runGen (retryAttempt env) p")
    (simp add: generateVideo_alt split: promise.splits)


lemma not_isNotFound_quotaError: "\<not> isNotFound quotaError"
  by (simp add: isNotFound_def quotaError_def jsIncludes_def sublist_code)

lemma runGen_rejectingAttempt:
  "runGen (rejectingAttempt e) p = ([GenerateVideos], Rejected (ErrorObject e))"
  by (simp add: runGen_def rejectingAttempt_def)

lemma runGen_throwingAttempt: "runGen (throwingAttempt x) p = ([GenerateVideos], Rejected x)"
  by (simp add: runGen_def throwingAttempt_def)

lemma runGen_pollRejectedAttempt:
  "runGen (pollRejectedAttempt x) p
     = ([GenerateVideos, GetVideosOperation, GetVideosOperation], Rejected x)"
  by (simp add: runGen_def pollRejectedAttempt_def)





text \<open>
  When the promise of \<^verbatim>\<open>generateVideo\<close> is rejected: exactly when the first run is
  rejected with a value on which the classification of lines 179-182 throws. Every
  other failure (of the submission, of a poll, of the prompt, of the retry) ends in null
  or, when a call never settles, in a promise that stays pending.
\<close>

lemma generateVideo_rejected_iff:
  "isRejected (snd (generateVideo window env p)) \<longleftrightarrow>
     (\<exists>x. snd (runGen (firstAttempt env) p) = Rejected x \<and> classifyThrown x = None)"
proof (cases "snd (runGen (firstAttempt env) p)")
  case (Rejected x)
  show ?thesis
  proof (cases "classifyThrown x")
    case None
    with Rejected show ?thesis by (simp add: generateVideo_unreadable)
  next
    case (Some b)
    show ?thesis
    proof (cases b)
      case False
      with Rejected Some show ?thesis by (simp add: generateVideo_other_error)
    next
      case True
      show ?thesis
      proof (cases "selectKeyPrompt window")
        case None
        with Rejected Some True show ?thesis by (simp add: generateVideo_no_prompt)
      next
        case (Some sel)
        with Rejected \<open>classifyThrown x = Some b\<close> True show ?thesis
          by (cases sel)
            (simp_all add: generateVideo_retry generateVideo_prompt_rejected
               generateVideo_prompt_pending split: promise.splits)
      qed
    qed
  qed
qed (simp_all add: generateVideo_first_settles)

lemma generateVideo_error_object_settles:
  assumes "snd (runGen (firstAttempt env) p) = Rejected (ErrorObject e)"
  shows "\<not> isRejected (snd (generateVideo window env p))"
  using assms by (simp add: generateVideo_rejected_iff)

text \<open>
  C10 fails on the code. The submission is rejected with \<^verbatim>\<open>undefined\<close> (line 149), or with
  a value whose message is a number, or with an error object that holds a circular
  reference and the message \<open>Quota exceeded\<close>; or the second poll of an accepted
  submission is rejected with such an object (line 162). The \<^verbatim>\<open>catch\<close> block then throws
  while it classifies the value, and the promise of \<^verbatim>\<open>generateVideo\<close> is rejected
  instead of resolving to null, with or without a prompt on offer. The callback of the
  caller (App.tsx, lines 94-98) does not run: the settling is no step of the component.
\<close>

theorem generateVideo_rejects_on_unreadable_error:
  "runGen (throwingAttempt Nullish) ''slow pan over a lake''
     = ([GenerateVideos], Rejected Nullish)
   \<and> classifyThrown Nullish = None
   \<and> generateVideo noStudio (throwingVideo Nullish) ''slow pan over a lake''
       = ([GenerateVideos], Rejected typeError)
   \<and> generateVideo (studioWindow (Fulfilled ())) (throwingVideo OddMessage)
         ''slow pan over a lake''
       = ([GenerateVideos], Rejected typeError)
   \<and> generateVideo noStudio (throwingVideo (Unserialisable (Some ''Quota exceeded'')))
         ''slow pan over a lake''
       = ([GenerateVideos], Rejected typeError)
   \<and> generateVideo noStudio (pollRejectedVideo (Unserialisable (Some ''Quota exceeded'')))
         ''slow pan over a lake''
       = ([GenerateVideos, GetVideosOperation, GetVideosOperation], Rejected typeError)
   \<and> step (VideoSettled 0 noStudio (throwingVideo Nullish)) readyWorld = None"
  by (simp add: generateVideo_def runGen_throwingAttempt runGen_pollRejectedAttempt
      throwingVideo_def pollRejectedVideo_def jsIncludes_def sublist_code readyWorld_def)

section \<open>Image generation: the two tiers (C4)\<close>

lemma find_inlineData:
  "List.find (\<lambda>p. inlineData p \<noteq> None) parts = Some part \<Longrightarrow> inlineData part \<noteq> None"
  by (auto simp: find_Some_iff)

lemma findInlineData_None:
  assumes "findInlineData response = None"
  shows "noImagePayload response"
proof (cases "candidateParts response")
  case None
  then show ?thesis by (simp add: noImagePayload_def)
next
  case (Some parts)
  show ?thesis
  proof (cases "List.find (\<lambda>p. inlineData p \<noteq> None) parts")
    case None
    then have "\<forall>part \<in> set parts. inlineData part = None"
      by (auto simp: find_None_iff)
    with Some show ?thesis
      by (auto simp: noImagePayload_def imagePayload_def list_ex_iff)
  next
    case (Some part)
    with find_inlineData [OF Some] assms \<open>candidateParts response = Some parts\<close>
    show ?thesis by (simp add: findInlineData_def)
  qed
qed

lemma findInlineData_Some:
  assumes "findInlineData response = Some d" "data d = Some s" "s \<noteq> []"
  shows "\<not> noImagePayload response"
proof -
  from assms(1) obtain parts part where p: "candidateParts response = Some parts"
    "List.find (\<lambda>p. inlineData p \<noteq> None) parts = Some part" "inlineData part = Some d"
    by (auto simp: findInlineData_def split: option.splits)
  from p(2) have "part \<in> set parts"
    by (auto simp: find_Some_iff)
  moreover from p(3) assms(2,3) have "imagePayload part"
    by (simp add: imagePayload_def)
  ultimately show ?thesis
    using p(1) by (auto simp: noImagePayload_def list_ex_iff)
qed

text \<open>
  On an answer that carries data where it has \<^verbatim>\<open>inlineData\<close>, the test of the code and the
  failure of a tier in the words of the specification agree.
\<close>

lemma imageTier_rejected:
  assumes "carriesData send request"
  shows "isRejected (imageTier send request msg) \<longleftrightarrow> tierFails send request"
proof (cases "send request")
  case (Fulfilled response)
  show ?thesis
  proof (cases "findInlineData response")
    case None
    with Fulfilled show ?thesis
      by (simp add: imageTier_def tierFails_def findInlineData_None)
  next
    case (Some d)
    with Fulfilled assms obtain s where "data d = Some s" "s \<noteq> []"
      by (auto simp: carriesData_def split: option.splits)
    with Fulfilled Some show ?thesis
      by (simp add: imageTier_def tierFails_def findInlineData_Some)
  qed
qed (simp_all add: imageTier_def tierFails_def)

lemma imageTier_image:
  assumes "send request = Fulfilled response" "\<not> noImagePayload response"
  shows "imageTier send request msg = Fulfilled (firstImage response)"
  using assms findInlineData_None [of response]
  by (auto simp: imageTier_def firstImage_def split: option.splits)

lemma firstImage_carried:
  assumes "send request = Fulfilled response" "\<not> noImagePayload response"
    "carriesData send request"
  shows "firstImage response \<noteq> None" "firstImage response \<noteq> Some []"
  using assms findInlineData_None [of response]
  by (auto simp: carriesData_def firstImage_def split: option.splits)

lemma generateArt_requests:
  assumes "carriesData send (primaryRequest p)"
  shows "fst (generateArt (Client send) p) =
     (if tierFails send (primaryRequest p) then [primaryRequest p, fallbackRequest p]
      else [primaryRequest p])"
  using imageTier_rejected [OF assms, of "''No image data found in response''"]
  by (cases "imageTier send (primaryRequest p) ''No image data found in response''")
     (simp_all add: generateArt_def)

lemma generateArt_outcome:
  assumes "carriesData send (primaryRequest p)"
  shows "snd (generateArt (Client send) p) =
     (if tierFails send (primaryRequest p)
      then imageTier send (fallbackRequest p) ''Image generation failed''
      else imageTier send (primaryRequest p) ''No image data found in response'')"
  using imageTier_rejected [OF assms, of "''No image data found in response''"]
  by (cases "imageTier send (primaryRequest p) ''No image data found in response''")
     (simp_all add: generateArt_def)

lemma generateArt_rejected:
  assumes "carriesData send (primaryRequest p)" "carriesData send (fallbackRequest p)"
  shows "isRejected (snd (generateArt (Client send) p)) \<longleftrightarrow>
     tierFails send (primaryRequest p) \<and> tierFails send (fallbackRequest p)"
  using assms by (simp add: generateArt_outcome imageTier_rejected)

lemma generateArt_no_client: "generateArt (NoClient e) p = ([], Rejected e)"
  by (simp add: generateArt_def)

lemma handleRecordingStop_ready:
  assumes "analyzeAudioPersonality (analysisEnv sv) = Fulfilled a"
    and "snd (generateArt (generateContent sv) (prompt (resp_art a))) = Fulfilled art"
    and "generateSpeech (generateContent sv) (narrative (resp_story a)) (voice_name (resp_tts a))
         = Fulfilled audio"
  shows "handleRecordingStop sv s =
     (publishAssets a art audio (publishAnalysis a (beginAnalysis s)),
      Some (video_prompt (resp_video a)))"
  using assms by (simp add: handleRecordingStop_def assetBarrier_def)

text \<open>
  C4, as stated, fails: the client is built before the \<^verbatim>\<open>try\<close> (line 80), with the API key
  of the environment. When that throws, \<^verbatim>\<open>generateArt\<close> raises the error although no tier
  has failed: neither model was attempted, no request was sent.
\<close>

theorem art_rejected_without_attempt_counterexample:
  "fst (generateArt (NoClient keyError) ''a misty lake'') = []
   \<and> snd (generateArt (NoClient keyError) ''a misty lake'') = Rejected keyError"
  by (simp add: generateArt_def)

text \<open>
  C4, amended. When the client cannot be built, \<^verbatim>\<open>generateArt\<close> raises that error and
  sends no request. With a client, and for answers that carry data where they have
  \<^verbatim>\<open>inlineData\<close>: \<^verbatim>\<open>generateArt\<close> first calls the high-fidelity model; if that tier fails
  (the call throws, or the response carries no image payload) it sends exactly one more
  request, to the lower-fidelity model, with the same prompt and the same aspect ratio;
  otherwise it sends none; and its promise is rejected exactly when both tiers fail. When
  the primary tier fails, the fallback answers with an image payload and the analysis
  and the speech call succeed, the handler leaves the Session in \<open>SHOWCASE\<close> with the
  fallback's image, which is present and not empty. (What the code does with an answer
  whose \<^verbatim>\<open>inlineData\<close> carries no data is not part of this statement.)
\<close>

theorem art_fallback:
  "generateArt (NoClient e) p = ([], Rejected e)
   \<and> (carriesData send (primaryRequest p) \<longrightarrow>
        fst (generateArt (Client send) p) =
          (if tierFails send (primaryRequest p) then [primaryRequest p, fallbackRequest p]
           else [primaryRequest p]))
   \<and> model (primaryRequest p) = ''gemini-3-pro-image-preview''
   \<and> model (fallbackRequest p) = ''gemini-2.5-flash-image''
   \<and> contentText (primaryRequest p) = p
   \<and> contentText (fallbackRequest p) = p
   \<and> aspectRatio (config (fallbackRequest p)) = aspectRatio (config (primaryRequest p))
   \<and> (carriesData send (primaryRequest p) \<and> carriesData send (fallbackRequest p) \<longrightarrow>
        (isRejected (snd (generateArt (Client send) p)) \<longleftrightarrow>
           tierFails send (primaryRequest p) \<and> tierFails send (fallbackRequest p)))
   \<and> (analyzeAudioPersonality (analysisEnv sv) = Fulfilled a
        \<and> generateContent sv = Client send
        \<and> carriesData send (primaryRequest (prompt (resp_art a)))
        \<and> carriesData send (fallbackRequest (prompt (resp_art a)))
        \<and> tierFails send (primaryRequest (prompt (resp_art a)))
        \<and> send (fallbackRequest (prompt (resp_art a))) = Fulfilled response
        \<and> \<not> noImagePayload response
        \<and> generateSpeech (generateContent sv) (narrative (resp_story a))
             (voice_name (resp_tts a)) = Fulfilled audio
        \<longrightarrow> state (fst (handleRecordingStop sv s)) = SHOWCASE
            \<and> assets (fst (handleRecordingStop sv s))
                = Some (initialAssets a (firstImage response) audio)
            \<and> firstImage response \<noteq> None \<and> firstImage response \<noteq> Some [])"
proof (intro conjI impI)
  assume h: "analyzeAudioPersonality (analysisEnv sv) = Fulfilled a
        \<and> generateContent sv = Client send
        \<and> carriesData send (primaryRequest (prompt (resp_art a)))
        \<and> carriesData send (fallbackRequest (prompt (resp_art a)))
        \<and> tierFails send (primaryRequest (prompt (resp_art a)))
        \<and> send (fallbackRequest (prompt (resp_art a))) = Fulfilled response
        \<and> \<not> noImagePayload response
        \<and> generateSpeech (generateContent sv) (narrative (resp_story a))
             (voice_name (resp_tts a)) = Fulfilled audio"
  then have art: "snd (generateArt (generateContent sv) (prompt (resp_art a)))
      = Fulfilled (firstImage response)"
    by (simp add: generateArt_outcome imageTier_image)
  have run: "handleRecordingStop sv s =
     (publishAssets a (firstImage response) audio (publishAnalysis a (beginAnalysis s)),
      Some (video_prompt (resp_video a)))"
    using h art by (intro handleRecordingStop_ready) auto
  show "state (fst (handleRecordingStop sv s)) = SHOWCASE"
    by (simp add: run publishAssets_def)
  show "assets (fst (handleRecordingStop sv s))
      = Some (initialAssets a (firstImage response) audio)"
    by (simp add: run publishAssets_def)
  from h show "firstImage response \<noteq> None" "firstImage response \<noteq> Some []"
    using firstImage_carried [of send "fallbackRequest (prompt (resp_art a))" response]
    by simp_all
next
  assume "carriesData send (primaryRequest p)"
  then show "fst (generateArt (Client send) p) =
          (if tierFails send (primaryRequest p) then [primaryRequest p, fallbackRequest p]
           else [primaryRequest p])"
    by (rule generateArt_requests)
next
  assume "carriesData send (primaryRequest p) \<and> carriesData send (fallbackRequest p)"
  then show "isRejected (snd (generateArt (Client send) p)) \<longleftrightarrow>
           tierFails send (primaryRequest p) \<and> tierFails send (fallbackRequest p)"
    by (simp add: generateArt_rejected)
qed (simp_all add: generateArt_no_client primaryRequest_def fallbackRequest_def)

lemma analysisOf_ok: "analyzeAudioPersonality (analysisOf a) = Fulfilled a"
  by (simp add: analyzeAudioPersonality_def analysisOf_def)

lemma primaryDownSend_simps:
  "primaryDownSend (primaryRequest p) = Rejected (Error ''The model is overloaded.'')"
  "primaryDownSend (fallbackRequest p) = Fulfilled (payload ''iVBORw0KGgo='')"
  "primaryDownSend (speechRequest txt voice) = Fulfilled (payload ''SUQzBAAAAAAA'')"
  by (simp_all add: primaryDownSend_def primaryRequest_def fallbackRequest_def
      speechRequest_def)

lemma payload_simps:
  "findInlineData (payload d) = Some \<lparr>data = Some d\<rparr>"
  "firstPartData (payload d) = Some d"
  "firstImage (payload d) = Some d"
  "noImagePayload (payload d) \<longleftrightarrow> d = []"
  by (simp_all add: payload_def findInlineData_def firstPartData_def firstImage_def
      noImagePayload_def imagePayload_def)

lemma primaryDown_speech:
  "generateSpeech primaryDown ''You are calm.'' ''Kore'' = Fulfilled ''SUQzBAAAAAAA''"
  by (simp add: generateSpeech_def primaryDown_def primaryDownSend_simps payload_simps)

text \<open>
  The amended C4 at a concrete input: the high-fidelity model is overloaded, the
  fallback answers with an image.
\<close>

theorem art_fallback_witness:
  "tierFails primaryDownSend (primaryRequest ''a misty lake'')
   \<and> \<not> tierFails primaryDownSend (fallbackRequest ''a misty lake'')
   \<and> fst (generateArt primaryDown ''a misty lake'')
       = [primaryRequest ''a misty lake'', fallbackRequest ''a misty lake'']
   \<and> \<not> isRejected (snd (generateArt primaryDown ''a misty lake''))
   \<and> state (fst (handleRecordingStop primaryDownServices initialApp)) = SHOWCASE
   \<and> assets (fst (handleRecordingStop primaryDownServices initialApp))
       = Some (initialAssets sampleAnalysis (Some ''iVBORw0KGgo='') ''SUQzBAAAAAAA'')"
proof -
  have a: "analyzeAudioPersonality (analysisEnv primaryDownServices) = Fulfilled sampleAnalysis"
    by (simp add: primaryDownServices_def analysisOf_ok)
  have gc: "generateContent primaryDownServices = Client primaryDownSend"
    by (simp add: primaryDownServices_def primaryDown_def)
  have s: "prompt (resp_art sampleAnalysis) = ''a misty lake''"
    "narrative (resp_story sampleAnalysis) = ''You are calm.''"
    "voice_name (resp_tts sampleAnalysis) = ''Kore''"
    by (simp_all add: sampleAnalysis_def)
  have c: "carriesData primaryDownSend (primaryRequest p)"
    "carriesData primaryDownSend (fallbackRequest p)" for p
    by (simp_all add: carriesData_def primaryDownSend_simps payload_simps)
  have t: "tierFails primaryDownSend (primaryRequest p)"
    "\<not> tierFails primaryDownSend (fallbackRequest p)" for p
    by (simp_all add: tierFails_def primaryDownSend_simps payload_simps)
  have sp: "generateSpeech (Client primaryDownSend) ''You are calm.'' ''Kore''
      = Fulfilled ''SUQzBAAAAAAA''"
    using primaryDown_speech by (simp add: primaryDown_def)
  from art_fallback [of keyError "''a misty lake''" primaryDownSend primaryDownServices
      sampleAnalysis "payload ''iVBORw0KGgo=''" "''SUQzBAAAAAAA''" initialApp]
  show ?thesis
    by (simp add: a gc s c t sp primaryDownSend_simps payload_simps primaryDown_def)
qed

section \<open>Frame lemmas and the invariant\<close>

lemma startRecording_frame:
  "assets (snd (startRecording window devices s)) = assets s"
  "personality (snd (startRecording window devices s)) = personality s"
  "statusMessage (snd (startRecording window devices s)) = statusMessage s"
  "state (snd (startRecording window devices s)) = state s
   \<or> state (snd (startRecording window devices s)) = RECORDING"
  by (cases "checkApiKey window"; cases "snd (checkApiKey window)";
      cases "getUserMedia devices"; simp add: startRecording_def)+

lemma stopRecording_frame:
  "assets (snd (stopRecording s)) = assets s"
  "personality (snd (stopRecording s)) = personality s"
  "fst (stopRecording s) \<Longrightarrow> state (snd (stopRecording s)) = ANALYZING"
  "\<not> fst (stopRecording s) \<Longrightarrow> snd (stopRecording s) = s"
  by (auto simp: stopRecording_def split: option.splits if_splits)

lemma patchVideo_frame:
  "state (patchVideo r s) = state s"
  "error (patchVideo r s) = error s"
  "personality (patchVideo r s) = personality s"
  "statusMessage (patchVideo r s) = statusMessage s"
  "(assets (patchVideo r s) = None) = (assets s = None)"
  by (simp_all add: patchVideo_def split: option.splits)

lemma consistent_initial: "consistent initialWorld"
  by (simp add: consistent_def initialWorld_def initialApp_def)

lemma step_consistent:
  assumes "consistent w" "step x w = Some w'"
  shows "consistent w'"
proof (cases x)
  case (ClickStart window devices)
  with assms show ?thesis
    using startRecording_frame [of window devices "app w"]
    by (auto simp: consistent_def offersStart_def split: if_splits Stage.splits)
next
  case ClickStop
  with assms show ?thesis
    using stopRecording_frame [of "app w"]
    by (cases "stopRecording (app w)"; cases "fst (stopRecording (app w))")
       (auto simp: consistent_def offersStop_def split: if_splits Stage.splits)
next
  case OnStop
  with assms show ?thesis
    by (auto simp: consistent_def beginAnalysis_def split: if_splits)
next
  case (AnalysisSettled env)
  with assms show ?thesis
    by (auto simp: consistent_def catchFailure_def publishAnalysis_def
        split: if_splits promise.splits)
next
  case (BarrierSettled gc first)
  with assms show ?thesis
    by (auto simp: consistent_def catchFailure_def publishAssets_def
        split: if_splits promise.splits Stage.splits)
next
  case (VideoSettled i window env)
  with assms show ?thesis
    by (auto simp: consistent_def patchVideo_frame split: if_splits promise.splits Stage.splits)
next
  case ClickReset
  with assms show ?thesis
    by (auto simp: consistent_def offersReset_def reset_def split: if_splits Stage.splits)
qed

lemma run_consistent:
  "consistent w \<Longrightarrow> run xs w = Some w' \<Longrightarrow> consistent w'"
proof (induction xs arbitrary: w)
  case Nil
  then show ?case by simp
next
  case (Cons x xs)
  then show ?case
    by (auto split: option.splits dest: step_consistent)
qed

lemma reachable_consistent: "run xs initialWorld = Some w \<Longrightarrow> consistent w"
  using run_consistent [OF consistent_initial] .


section \<open>The joint barrier (C1, C9)\<close>

text \<open>
  The barrier is the only way into \<open>SHOWCASE\<close>: a step enters that phase only if it is
  the settling of \<^verbatim>\<open>Promise.all\<close> with the promise of the art call and the promise of
  the speech call both fulfilled; and when one of the two promises is rejected, the
  handler ends in \<open>ERROR\<close> without touching the assets.
\<close>

lemma promiseAll_rejected:
  "isRejected (promiseAll first a b) \<longleftrightarrow> isRejected a \<or> isRejected b"
  by (cases a; cases b) simp_all

lemma promiseAll_fulfilled:
  "promiseAll first a b = Fulfilled (x, y) \<longleftrightarrow> a = Fulfilled x \<and> b = Fulfilled y"
  by (cases a; cases b) auto


lemma step_enters_showcase:
  assumes "step x w = Some w'" "state (app w') = SHOWCASE" "state (app w) \<noteq> SHOWCASE"
  shows "\<exists>gc first a. x = BarrierSettled gc first \<and> stage w = AwaitBarrier a
       \<and> isFulfilled (snd (generateArt gc (prompt (resp_art a))))
       \<and> isFulfilled (generateSpeech gc (narrative (resp_story a)) (voice_name (resp_tts a)))"
proof (cases x)
  case (ClickStart window devices)
  with assms show ?thesis
    using startRecording_frame(4) [of window devices "app w"]
    by (auto split: if_splits)
next
  case ClickStop
  with assms show ?thesis
    using stopRecording_frame(3,4) [of "app w"]
    by (cases "stopRecording (app w)"; cases "fst (stopRecording (app w))")
       (auto split: if_splits)
next
  case OnStop
  with assms show ?thesis by (auto simp: beginAnalysis_def split: if_splits)
next
  case (AnalysisSettled env)
  with assms show ?thesis
    by (auto simp: catchFailure_def publishAnalysis_def split: if_splits promise.splits)
next
  case (BarrierSettled gc first)
  with assms obtain a where a: "stage w = AwaitBarrier a"
    by (cases "stage w") auto
  with BarrierSettled assms obtain art audio where
    "assetBarrier gc first a = Fulfilled (art, audio)"
    by (cases "assetBarrier gc first a") (auto simp: catchFailure_def)
  then have "snd (generateArt gc (prompt (resp_art a))) = Fulfilled art"
    "generateSpeech gc (narrative (resp_story a)) (voice_name (resp_tts a)) = Fulfilled audio"
    by (simp_all add: assetBarrier_def promiseAll_fulfilled)
  with BarrierSettled a show ?thesis by simp
next
  case (VideoSettled i window env)
  with assms show ?thesis
    by (auto simp: patchVideo_frame split: if_splits promise.splits)
next
  case ClickReset
  with assms show ?thesis by (auto simp: reset_def split: if_splits)
qed

lemma assetBarrier_rejected:
  "isRejected (assetBarrier gc first a) \<longleftrightarrow>
     isRejected (snd (generateArt gc (prompt (resp_art a))))
     \<or> isRejected (generateSpeech gc (narrative (resp_story a)) (voice_name (resp_tts a)))"
  by (simp add: assetBarrier_def promiseAll_rejected)


lemma step_barrier_rejected:
  assumes "stage w = AwaitBarrier a" "assetBarrier gc first a = Rejected err"
  shows "step (BarrierSettled gc first) w =
     Some (w\<lparr>app := catchFailure err (app w), stage := NoRun\<rparr>)"
  using assms by simp

lemma sampleAnalysis_fields:
  "prompt (resp_art sampleAnalysis) = ''a misty lake''"
  "narrative (resp_story sampleAnalysis) = ''You are calm.''"
  "voice_name (resp_tts sampleAnalysis) = ''Kore''"
  "video_prompt (resp_video sampleAnalysis) = ''slow pan over a lake''"
  by (simp_all add: sampleAnalysis_def)

lemma composingWorld_reached:
  "run (recordThenAnalyze sampleAnalysis) initialWorld = Some composingWorld"
  by (simp add: recordThenAnalyze_def noStudio_def micGranted_def initialWorld_def
      initialApp_def composingWorld_def composingApp_def offersStart_def offersStop_def
      startRecording_def checkApiKey_def stopRecording_def beginAnalysis_def analysisOf_ok
      publishAnalysis_def)

lemma allUp_art: "snd (generateArt allUp p) = Fulfilled (Some ''iVBORw0KGgo='')"
  by (simp add: generateArt_def imageTier_def allUp_def primaryRequest_def payload_simps)

lemma allUp_speech: "generateSpeech allUp ''You are calm.'' ''Kore'' = Fulfilled ''SUQzBAAAAAAA''"
  by (simp add: generateSpeech_def allUp_def speechRequest_def payload_simps)



lemma imagesDown_art:
  "generateArt imagesDown p
     = ([primaryRequest p, fallbackRequest p], Rejected (Error ''Image generation failed''))"
  by (simp add: generateArt_def imageTier_def imagesDown_def primaryRequest_def
      fallbackRequest_def findInlineData_def)

lemma imagesDown_speech:
  "generateSpeech imagesDown ''You are calm.'' ''Kore'' = Fulfilled ''SUQzBAAAAAAA''"
  by (simp add: generateSpeech_def imagesDown_def speechRequest_def payload_simps)

lemma readyWorld_step:
  "step (BarrierSettled allUp True) composingWorld = Some readyWorld"
  by (simp add: composingWorld_def assetBarrier_def sampleAnalysis_fields allUp_art
      allUp_speech publishAssets_def composingApp_def readyWorld_def readyApp_def)

lemma servicesWith_simps:
  "analyzeAudioPersonality (analysisEnv (servicesWith gc)) = Fulfilled sampleAnalysis"
  "generateContent (servicesWith gc) = gc" "artFirst (servicesWith gc) = True"
  by (simp_all add: servicesWith_def analysisOf_ok)

lemma imagesDown_barrier:
  "assetBarrier imagesDown True sampleAnalysis = Rejected (Error ''Image generation failed'')"
  by (simp add: assetBarrier_def sampleAnalysis_fields imagesDown_art imagesDown_speech)

lemma imagesDown_step:
  "step (BarrierSettled imagesDown True) composingWorld
     = Some (composingWorld\<lparr>app := catchFailure (Error ''Image generation failed'')
               composingApp, stage := NoRun\<rparr>)"
  by (simp add: imagesDown_barrier composingWorld_def)

lemma datalessFallbackSend_simps:
  "datalessFallbackSend (primaryRequest p) = Rejected (Error ''The model is overloaded.'')"
  "datalessFallbackSend (fallbackRequest p) = Fulfilled dataless"
  "datalessFallbackSend (speechRequest txt voice) = Fulfilled (payload ''SUQzBAAAAAAA'')"
  by (simp_all add: datalessFallbackSend_def primaryRequest_def fallbackRequest_def
      speechRequest_def)

lemma dataless_simps:
  "findInlineData dataless = Some \<lparr>data = None\<rparr>" "noImagePayload dataless"
  by (simp_all add: dataless_def findInlineData_def noImagePayload_def imagePayload_def)

lemma datalessFallback_art:
  "generateArt datalessFallback p = ([primaryRequest p, fallbackRequest p], Fulfilled None)"
  by (simp add: generateArt_def datalessFallback_def imageTier_def datalessFallbackSend_simps
      dataless_simps)

lemma datalessFallback_speech:
  "generateSpeech datalessFallback ''You are calm.'' ''Kore'' = Fulfilled ''SUQzBAAAAAAA''"
  by (simp add: generateSpeech_def datalessFallback_def datalessFallbackSend_simps
      payload_simps)

lemma noImageWorld_step:
  "step (BarrierSettled datalessFallback True) composingWorld = Some noImageWorld"
  by (simp add: composingWorld_def assetBarrier_def sampleAnalysis_fields datalessFallback_art
      datalessFallback_speech publishAssets_def composingApp_def noImageWorld_def
      noImageApp_def)

text \<open>
  C1 fails on the code. The analysis and the speech call succeed; the high-fidelity
  image model throws, and the fallback model answers with a part that has \<^verbatim>\<open>inlineData\<close>
  but no \<^verbatim>\<open>data\<close> in it. Both tiers have failed, in the words of the claim: one threw,
  the other answered without an image payload. But \<^verbatim>\<open>generateArt\<close> tests the part, not
  its data (lines 118-119), and resolves to \<^verbatim>\<open>undefined\<close>; the barrier is fulfilled, and
  the Session enters \<open>SHOWCASE\<close> with assets whose image is null, instead of \<open>ERROR\<close> with
  null assets. (When the fallback answers with no part at all, the art call is rejected
  and the Session ends in \<open>ERROR\<close>, as claimed.)
\<close>

theorem ready_without_image:
  "tierFails datalessFallbackSend (primaryRequest ''a misty lake'')
   \<and> tierFails datalessFallbackSend (fallbackRequest ''a misty lake'')
   \<and> generateArt datalessFallback ''a misty lake''
       = ([primaryRequest ''a misty lake'', fallbackRequest ''a misty lake''], Fulfilled None)
   \<and> generateSpeech datalessFallback ''You are calm.'' ''Kore'' = Fulfilled ''SUQzBAAAAAAA''
   \<and> run (recordThenAnalyze sampleAnalysis) initialWorld = Some composingWorld
   \<and> step (BarrierSettled datalessFallback True) composingWorld = Some noImageWorld
   \<and> state (app noImageWorld) = SHOWCASE
   \<and> error (app noImageWorld) = None
   \<and> assets (app noImageWorld) = Some (initialAssets sampleAnalysis None ''SUQzBAAAAAAA'')
   \<and> artBase64 (initialAssets sampleAnalysis None ''SUQzBAAAAAAA'') = None
   \<and> state (fst (handleRecordingStop (servicesWith datalessFallback) initialApp)) = SHOWCASE
   \<and> step (BarrierSettled imagesDown True) composingWorld
       = Some (composingWorld\<lparr>app := catchFailure (Error ''Image generation failed'')
                 composingApp, stage := NoRun\<rparr>)"
proof -
  have t: "tierFails datalessFallbackSend (primaryRequest ''a misty lake'')"
    "tierFails datalessFallbackSend (fallbackRequest ''a misty lake'')"
    by (simp_all add: tierFails_def datalessFallbackSend_simps dataless_simps)
  have w: "state (app noImageWorld) = SHOWCASE" "error (app noImageWorld) = None"
    "assets (app noImageWorld) = Some (initialAssets sampleAnalysis None ''SUQzBAAAAAAA'')"
    "artBase64 (initialAssets sampleAnalysis None ''SUQzBAAAAAAA'') = None"
    by (simp_all add: noImageWorld_def noImageApp_def initialAssets_def)
  have h: "state (fst (handleRecordingStop (servicesWith datalessFallback) initialApp))
      = SHOWCASE"
    by (simp add: handleRecordingStop_def servicesWith_simps assetBarrier_def
        sampleAnalysis_fields datalessFallback_art datalessFallback_speech publishAssets_def)
  show ?thesis
    using t w h composingWorld_reached noImageWorld_step imagesDown_step
      datalessFallback_art [of "''a misty lake''"] datalessFallback_speech
    by (simp del: step.simps run.simps)
qed






section \<open>The background video task (C2, C5)\<close>

lemma secondAnalysis_fields:
  "prompt (resp_art secondAnalysis) = ''a neon city''"
  "narrative (resp_story secondAnalysis) = ''You are bold.''"
  "voice_name (resp_tts secondAnalysis) = ''Puck''"
  "video_prompt (resp_video secondAnalysis) = ''fast ride through neon streets''"
  by (simp_all add: secondAnalysis_def)

lemma allUp_speech_any:
  "txt \<noteq> [] \<Longrightarrow> generateSpeech allUp txt voice = Fulfilled ''SUQzBAAAAAAA''"
  by (simp add: generateSpeech_def allUp_def speechRequest_def payload_def firstPartData_def)

lemma run_append:
  "run (xs @ ys) w = (case run xs w of None \<Rightarrow> None | Some w' \<Rightarrow> run ys w')"
  by (induction xs arbitrary: w) (simp_all split: option.splits)

lemma readyWorld_reached:
  "run (recordThenAnalyze sampleAnalysis @ [BarrierSettled allUp True]) initialWorld
     = Some readyWorld"
  by (simp add: run_append composingWorld_reached readyWorld_step del: step.simps)

lemma second_recording:
  "run (ClickReset # recordThenAnalyze secondAnalysis @ [BarrierSettled allUp True]) readyWorld
     = Some secondReadyWorld"
  by (simp add: recordThenAnalyze_def readyWorld_def readyApp_def offersReset_def reset_def
      noStudio_def micGranted_def offersStart_def offersStop_def
      startRecording_def checkApiKey_def stopRecording_def beginAnalysis_def analysisOf_ok
      publishAnalysis_def assetBarrier_def secondAnalysis_fields allUp_art allUp_speech_any
      publishAssets_def secondReadyWorld_def secondReadyApp_def)

lemma run_append_Some: "run xs w = Some w' \<Longrightarrow> run (xs @ ys) w = run ys w'"
  by (simp add: run_append)

lemma secondReadyWorld_reached: "run twoSessions initialWorld = Some secondReadyWorld"
proof -
  have "run twoSessions initialWorld =
      run ((recordThenAnalyze sampleAnalysis @ [BarrierSettled allUp True])
           @ (ClickReset # recordThenAnalyze secondAnalysis @ [BarrierSettled allUp True]))
        initialWorld"
    by (simp add: twoSessions_def)
  also have "\<dots> =
      run (ClickReset # recordThenAnalyze secondAnalysis @ [BarrierSettled allUp True])
        readyWorld"
    by (rule run_append_Some [OF readyWorld_reached])
  also have "\<dots> = Some secondReadyWorld"
    by (rule second_recording)
  finally show ?thesis .
qed

lemma echoVideo_result:
  "snd (generateVideo window echoVideo p)
     = Fulfilled (Some (''https://videos.example/'' @ p @ ''&key=key-1''))"
  by (simp add: generateVideo_def runGen_def echoVideo_def withKey_def)

lemma patchVideo_None: "patchVideo None s = s"
  by (simp add: patchVideo_def)

lemma patchVideo_no_assets: "assets s = None \<Longrightarrow> patchVideo r s = s"
  by (simp add: patchVideo_def split: option.splits)

lemma patchVideo_assets:
  "assets s = Some a \<Longrightarrow> u \<noteq> [] \<Longrightarrow>
     assets (patchVideo (Some u) s) = Some (a\<lparr>videoUri := Some u\<rparr>)"
  by (simp add: patchVideo_def)

lemma step_video:
  assumes "step (VideoSettled i window env) w = Some w'"
  shows "i < length (videoTasks w)"
    and "\<exists>r. snd (generateVideo window env (videoTasks w ! i)) = Fulfilled r
           \<and> app w' = patchVideo r (app w)"
    and "videoTasks w' = take i (videoTasks w) @ drop (Suc i) (videoTasks w)"
    and "stage w' = stage w"
  using assms by (auto split: if_splits promise.splits)

lemma settle_counts:
  "run xs w = Some w' \<Longrightarrow>
     length (videoTasks w') + settlings xs \<le> length (videoTasks w) + barriers xs"
proof (induction xs arbitrary: w)
  case Nil
  then show ?case by (simp add: settlings_def barriers_def)
next
  case (Cons x xs)
  from Cons.prems obtain v where v: "step x w = Some v" and rest: "run xs v = Some w'"
    by (auto split: option.splits)
  from Cons.IH [OF rest]
  have ih: "length (videoTasks w') + settlings xs \<le> length (videoTasks v) + barriers xs" .
  have "length (videoTasks v) + (if isVideoSettled x then 1 else 0)
      \<le> length (videoTasks w) + (if isBarrierSettled x then 1 else 0)"
    using v by (cases x) (auto split: if_splits promise.splits Stage.splits prod.splits bool.splits)
  with ih show ?case
    by (simp add: settlings_def barriers_def split: if_splits)
qed

text \<open>
  C2, amended. When the barrier takes the Session into \<open>SHOWCASE\<close>, the published assets
  have a null video reference and exactly one video task is added to those in flight.
  The settling of a video task never changes the phase or the error, changes nothing at
  all when the task yields null, and removes the task from those in flight, so that a
  task settles, and patches, at most once. Hence over any sequence of steps the
  settlings number at most the tasks in flight at its start plus the barrier settlings
  in it; with no task in flight at the start and one barrier, at most one.
\<close>

theorem video_patch_after_ready:
  "(step (BarrierSettled gc first) w = Some w' \<and> state (app w') = SHOWCASE \<longrightarrow>
      assets (app w') \<noteq> None \<and> publishedVideo (app w') = None
      \<and> length (videoTasks w') = Suc (length (videoTasks w)))
   \<and> (step (VideoSettled i window env) w = Some w' \<longrightarrow>
      state (app w') = state (app w) \<and> error (app w') = error (app w)
      \<and> Suc (length (videoTasks w')) = length (videoTasks w)
      \<and> (snd (generateVideo window env (videoTasks w ! i)) = Fulfilled None \<longrightarrow>
           app w' = app w))
   \<and> (videoTasks w = [] \<longrightarrow> step (VideoSettled i window env) w = None)
   \<and> (run xs w = Some w' \<longrightarrow>
      length (videoTasks w') + settlings xs \<le> length (videoTasks w) + barriers xs)
   \<and> (run xs w = Some w' \<and> videoTasks w = [] \<and> barriers xs \<le> 1 \<longrightarrow> settlings xs \<le> 1)"
proof (intro conjI impI)
  assume h: "step (BarrierSettled gc first) w = Some w' \<and> state (app w') = SHOWCASE"
  then obtain a where a: "stage w = AwaitBarrier a"
    by (cases "stage w") auto
  with h obtain art audio where b: "assetBarrier gc first a = Fulfilled (art, audio)"
    by (cases "assetBarrier gc first a") (auto simp: catchFailure_def)
  with h a have w': "w' = w\<lparr>app := publishAssets a art audio (app w), stage := NoRun,
      videoTasks := videoTasks w @ [video_prompt (resp_video a)]\<rparr>"
    by simp
  show "assets (app w') \<noteq> None" "publishedVideo (app w') = None"
    "length (videoTasks w') = Suc (length (videoTasks w))"
    by (simp_all add: w' publishAssets_def publishedVideo_def initialAssets_def)
next
  assume h: "step (VideoSettled i window env) w = Some w'"
  from step_video [OF h] obtain r where
    i: "i < length (videoTasks w)"
    and r: "snd (generateVideo window env (videoTasks w ! i)) = Fulfilled r"
    and app: "app w' = patchVideo r (app w)"
    and tasks: "videoTasks w' = take i (videoTasks w) @ drop (Suc i) (videoTasks w)"
    by blast
  show "state (app w') = state (app w)" "error (app w') = error (app w)"
    by (simp_all add: app patchVideo_frame)
  show "Suc (length (videoTasks w')) = length (videoTasks w)"
    using i by (simp add: tasks)
  { assume "snd (generateVideo window env (videoTasks w ! i)) = Fulfilled None"
    with r app show "app w' = app w" by (simp add: patchVideo_None) }
next
  assume "videoTasks w = []"
  then show "step (VideoSettled i window env) w = None" by simp
next
  assume "run xs w = Some w'"
  then show "length (videoTasks w') + settlings xs \<le> length (videoTasks w) + barriers xs"
    by (rule settle_counts)
next
  assume h: "run xs w = Some w' \<and> videoTasks w = [] \<and> barriers xs \<le> 1"
  with settle_counts [of xs w w'] show "settlings xs \<le> 1" by simp
qed

text \<open>
  C5, amended. The completion callback keeps no session identity: it patches whenever
  the assets of the moment are not null, with whatever reference the task yields. A
  completion that finds null assets changes nothing, so a completion arriving right
  after a reset changes nothing; and in every world reached from the initial one a
  completion that changes the state finds the Session in \<open>SHOWCASE\<close>.
\<close>

theorem stale_video_patch:
  "(assets s = None \<longrightarrow> patchVideo r s = s)
   \<and> (step ClickReset w = Some w1 \<and> step (VideoSettled i window env) w1 = Some w2 \<longrightarrow>
        app w2 = app w1)
   \<and> (run xs initialWorld = Some v \<and> step (VideoSettled i window env) v = Some v'
        \<and> app v' \<noteq> app v \<longrightarrow>
        state (app v) = SHOWCASE \<and> assets (app v) \<noteq> None)
   \<and> (assets s = Some a \<and> u \<noteq> [] \<longrightarrow>
        assets (patchVideo (Some u) s) = Some (a\<lparr>videoUri := Some u\<rparr>))"
proof (intro conjI impI)
  assume "assets s = None"
  then show "patchVideo r s = s" by (rule patchVideo_no_assets)
next
  assume h: "step ClickReset w = Some w1 \<and> step (VideoSettled i window env) w1 = Some w2"
  then have "assets (app w1) = None"
    by (auto simp: reset_def split: if_splits)
  moreover from h step_video(2) [of i window env w1 w2]
  obtain r where "app w2 = patchVideo r (app w1)" by blast
  ultimately show "app w2 = app w1" by (simp add: patchVideo_no_assets)
next
  assume h: "run xs initialWorld = Some v \<and> step (VideoSettled i window env) v = Some v'
        \<and> app v' \<noteq> app v"
  then have c: "consistent v" by (blast intro: reachable_consistent)
  from h step_video(2) [of i window env v v']
  obtain r where "app v' = patchVideo r (app v)" by blast
  with h have "assets (app v) \<noteq> None"
    using patchVideo_no_assets [of "app v" r] by auto
  with c show "state (app v) = SHOWCASE" "assets (app v) \<noteq> None"
    by (simp_all add: consistent_def)
next
  assume "assets s = Some a \<and> u \<noteq> []"
  then show "assets (patchVideo (Some u) s) = Some (a\<lparr>videoUri := Some u\<rparr>)"
    by (simp add: patchVideo_assets)
qed

lemma echoVideo_sample:
  "snd (generateVideo window echoVideo ''slow pan over a lake'') = Fulfilled (Some sampleVideo)"
  "snd (generateVideo window echoVideo ''fast ride through neon streets'')
     = Fulfilled (Some secondVideo)"
  by (simp_all add: echoVideo_result sampleVideo_def secondVideo_def)

lemma videos_nonempty: "sampleVideo \<noteq> []" "secondVideo \<noteq> []" "sampleVideo \<noteq> secondVideo"
  by (simp_all add: sampleVideo_def secondVideo_def)

lemma readyWorld_video_step:
  "step (VideoSettled 0 noStudio echoVideo) readyWorld = Some patchedWorld"
  by (simp add: readyWorld_def echoVideo_sample patchVideo_def videos_nonempty readyApp_def
      patchedWorld_def)

lemma stale_step:
  "step (VideoSettled 0 noStudio echoVideo) secondReadyWorld = Some stalePatchedWorld"
  by (simp add: secondReadyWorld_def echoVideo_sample patchVideo_def videos_nonempty
      secondReadyApp_def stalePatchedWorld_def)

lemma own_step:
  "step (VideoSettled 0 noStudio echoVideo) stalePatchedWorld = Some twicePatchedWorld"
  by (simp add: stalePatchedWorld_def echoVideo_sample patchVideo_def videos_nonempty
      secondReadyApp_def twicePatchedWorld_def)

lemma published_videos:
  "publishedVideo (app readyWorld) = None"
  "publishedVideo (app patchedWorld) = Some sampleVideo"
  "publishedVideo (app secondReadyWorld) = None"
  "publishedVideo (app stalePatchedWorld) = Some sampleVideo"
  "publishedVideo (app twicePatchedWorld) = Some secondVideo"
  by (simp_all add: publishedVideo_def readyWorld_def readyApp_def patchedWorld_def
      secondReadyWorld_def secondReadyApp_def stalePatchedWorld_def twicePatchedWorld_def
      initialAssets_def)

text \<open>
  C2, as stated, fails: the second of two Sessions enters \<open>SHOWCASE\<close> with a null video
  reference while the video task of the first, reset, Session is still in flight; then
  that task settles and patches the reference, and then the Session's own task settles
  and patches it again. The reference is patched twice after \<open>SHOWCASE\<close> was entered.
\<close>

theorem video_patched_twice_counterexample:
  "run twoSessions initialWorld = Some secondReadyWorld
   \<and> state (app secondReadyWorld) = SHOWCASE
   \<and> publishedVideo (app secondReadyWorld) = None
   \<and> step (VideoSettled 0 noStudio echoVideo) secondReadyWorld = Some stalePatchedWorld
   \<and> state (app stalePatchedWorld) = SHOWCASE
   \<and> publishedVideo (app stalePatchedWorld) = Some sampleVideo
   \<and> step (VideoSettled 0 noStudio echoVideo) stalePatchedWorld = Some twicePatchedWorld
   \<and> state (app twicePatchedWorld) = SHOWCASE
   \<and> publishedVideo (app twicePatchedWorld) = Some secondVideo
   \<and> sampleVideo \<noteq> secondVideo"
  by (simp add: secondReadyWorld_reached stale_step own_step published_videos videos_nonempty
      del: step.simps)
     (simp add: secondReadyWorld_def secondReadyApp_def stalePatchedWorld_def
        twicePatchedWorld_def)

text \<open>
  C5, as stated, fails: the video task started by the first Session (its prompt is the
  first in flight) settles after that Session was reset and the second has entered
  \<open>SHOWCASE\<close>; its reference is written into the assets of the second Session.
\<close>

theorem stale_video_patches_later_session_counterexample:
  "run twoSessions initialWorld = Some secondReadyWorld
   \<and> videoTasks secondReadyWorld ! 0 = video_prompt (resp_video sampleAnalysis)
   \<and> snd (generateVideo noStudio echoVideo (video_prompt (resp_video sampleAnalysis)))
       = Fulfilled (Some sampleVideo)
   \<and> assets (app secondReadyWorld)
       = Some (initialAssets secondAnalysis (Some ''iVBORw0KGgo='') ''SUQzBAAAAAAA'')
   \<and> step (VideoSettled 0 noStudio echoVideo) secondReadyWorld = Some stalePatchedWorld
   \<and> assets (app stalePatchedWorld)
       = Some ((initialAssets secondAnalysis (Some ''iVBORw0KGgo='') ''SUQzBAAAAAAA'')
                \<lparr>videoUri := Some sampleVideo\<rparr>)"
  by (simp add: secondReadyWorld_reached stale_step sampleAnalysis_fields echoVideo_sample
      del: step.simps)
     (simp add: secondReadyWorld_def secondReadyApp_def stalePatchedWorld_def)

lemma null_video_step:
  "step (VideoSettled 0 noStudio (rejectingVideo quotaError)) readyWorld
     = Some (readyWorld\<lparr>videoTasks := []\<rparr>)"
proof -
  have "snd (generateVideo noStudio (rejectingVideo quotaError) ''slow pan over a lake'')
      = Fulfilled None"
    by (simp add: generateVideo_def rejectingVideo_def runGen_rejectingAttempt
        not_isNotFound_quotaError)
  then show ?thesis
    by (simp add: readyWorld_def patchVideo_None)
qed

lemma ready_then_video:
  "run [BarrierSettled allUp True, VideoSettled 0 noStudio echoVideo] composingWorld
     = Some patchedWorld"
  by (simp add: readyWorld_step readyWorld_video_step del: step.simps)

text \<open>
  The amended C2 at concrete inputs: the first Session enters \<open>SHOWCASE\<close> with a null
  video reference and one task in flight; a task that yields null leaves the state as it
  was and the list empty, after which no settling is possible; a task that yields a
  reference patches it once, and phase and error stay as they were.
\<close>

theorem video_patch_after_ready_witness:
  "step (BarrierSettled allUp True) composingWorld = Some readyWorld
   \<and> state (app readyWorld) = SHOWCASE
   \<and> publishedVideo (app readyWorld) = None
   \<and> videoTasks composingWorld = []
   \<and> videoTasks readyWorld = [''slow pan over a lake'']
   \<and> snd (generateVideo noStudio (rejectingVideo quotaError) ''slow pan over a lake'')
       = Fulfilled None
   \<and> step (VideoSettled 0 noStudio (rejectingVideo quotaError)) readyWorld
       = Some (readyWorld\<lparr>videoTasks := []\<rparr>)
   \<and> step (VideoSettled 0 noStudio echoVideo) (readyWorld\<lparr>videoTasks := []\<rparr>) = None
   \<and> run [BarrierSettled allUp True, VideoSettled 0 noStudio echoVideo] composingWorld
       = Some patchedWorld
   \<and> barriers [BarrierSettled allUp True, VideoSettled 0 noStudio echoVideo] = 1
   \<and> settlings [BarrierSettled allUp True, VideoSettled 0 noStudio echoVideo] = 1
   \<and> state (app patchedWorld) = SHOWCASE
   \<and> error (app patchedWorld) = None
   \<and> publishedVideo (app patchedWorld) = Some sampleVideo"
proof -
  have st: "state (app readyWorld) = SHOWCASE" "videoTasks composingWorld = []"
    "videoTasks readyWorld = [''slow pan over a lake'']"
    "state (app patchedWorld) = SHOWCASE" "error (app patchedWorld) = None"
    "error (app readyWorld) = None"
    by (simp_all add: readyWorld_def readyApp_def composingWorld_def patchedWorld_def)
  have null: "snd (generateVideo noStudio (rejectingVideo quotaError) ''slow pan over a lake'')
      = Fulfilled None"
    by (simp add: generateVideo_def rejectingVideo_def runGen_rejectingAttempt
        not_isNotFound_quotaError)
  have counts: "barriers [BarrierSettled allUp True, VideoSettled 0 noStudio echoVideo] = 1"
    "settlings [BarrierSettled allUp True, VideoSettled 0 noStudio echoVideo] = 1"
    by (simp_all add: barriers_def settlings_def)
  have none: "step (VideoSettled 0 noStudio echoVideo) (readyWorld\<lparr>videoTasks := []\<rparr>) = None"
    by simp
  from video_patch_after_ready [of allUp True composingWorld readyWorld 0 noStudio
      "rejectingVideo quotaError" "[BarrierSettled allUp True, VideoSettled 0 noStudio echoVideo]"]
    video_patch_after_ready [of allUp True readyWorld "readyWorld\<lparr>videoTasks := []\<rparr>" 0
      noStudio "rejectingVideo quotaError" "[]"]
    video_patch_after_ready [of allUp True composingWorld patchedWorld 0 noStudio
      echoVideo "[BarrierSettled allUp True, VideoSettled 0 noStudio echoVideo]"]
  show ?thesis
    by (simp add: readyWorld_step null_video_step ready_then_video published_videos st null
        counts none del: step.simps run.simps)
qed

lemma reset_ready_step:
  "step ClickReset readyWorld = Some (readyWorld\<lparr>app := reset readyApp\<rparr>)"
  by (simp add: readyWorld_def readyApp_def offersReset_def)

lemma video_after_reset_step:
  "step (VideoSettled 0 noStudio echoVideo) (readyWorld\<lparr>app := reset readyApp\<rparr>)
     = Some (readyWorld\<lparr>app := reset readyApp, videoTasks := []\<rparr>)"
  by (simp add: readyWorld_def echoVideo_sample patchVideo_def reset_def videos_nonempty)

text \<open>
  The amended C5 at concrete inputs: a completion on a failed Session (null assets)
  changes nothing; a completion right after the reset of a ready Session changes
  nothing; a completion that changes the state finds the Session in \<open>SHOWCASE\<close>.
\<close>

theorem stale_video_patch_witness:
  "assets failedApp = None
   \<and> patchVideo (Some sampleVideo) failedApp = failedApp
   \<and> step ClickReset readyWorld = Some (readyWorld\<lparr>app := reset readyApp\<rparr>)
   \<and> step (VideoSettled 0 noStudio echoVideo) (readyWorld\<lparr>app := reset readyApp\<rparr>)
       = Some (readyWorld\<lparr>app := reset readyApp, videoTasks := []\<rparr>)
   \<and> app (readyWorld\<lparr>app := reset readyApp, videoTasks := []\<rparr>) = reset readyApp
   \<and> run (recordThenAnalyze sampleAnalysis @ [BarrierSettled allUp True]) initialWorld
       = Some readyWorld
   \<and> step (VideoSettled 0 noStudio echoVideo) readyWorld = Some patchedWorld
   \<and> app patchedWorld \<noteq> app readyWorld
   \<and> state (app readyWorld) = SHOWCASE
   \<and> assets readyApp
       = Some (initialAssets sampleAnalysis (Some ''iVBORw0KGgo='') ''SUQzBAAAAAAA'')
   \<and> sampleVideo \<noteq> []
   \<and> assets (patchVideo (Some sampleVideo) readyApp)
       = Some ((initialAssets sampleAnalysis (Some ''iVBORw0KGgo='') ''SUQzBAAAAAAA'')
                \<lparr>videoUri := Some sampleVideo\<rparr>)"
proof -
  have st: "assets failedApp = None" "state (app readyWorld) = SHOWCASE"
    "assets readyApp
       = Some (initialAssets sampleAnalysis (Some ''iVBORw0KGgo='') ''SUQzBAAAAAAA'')"
    "app patchedWorld \<noteq> app readyWorld"
    by (simp_all add: failedApp_def readyWorld_def readyApp_def patchedWorld_def
        initialAssets_def)
  from stale_video_patch [of failedApp "Some sampleVideo" readyWorld
      "readyWorld\<lparr>app := reset readyApp\<rparr>" 0 noStudio echoVideo
      "readyWorld\<lparr>app := reset readyApp, videoTasks := []\<rparr>"
      "recordThenAnalyze sampleAnalysis @ [BarrierSettled allUp True]" readyWorld patchedWorld
      "initialAssets sampleAnalysis (Some ''iVBORw0KGgo='') ''SUQzBAAAAAAA''" sampleVideo]
    stale_video_patch [of readyApp "Some sampleVideo" readyWorld
      "readyWorld\<lparr>app := reset readyApp\<rparr>" 0 noStudio echoVideo
      "readyWorld\<lparr>app := reset readyApp, videoTasks := []\<rparr>"
      "recordThenAnalyze sampleAnalysis @ [BarrierSettled allUp True]" readyWorld patchedWorld
      "initialAssets sampleAnalysis (Some ''iVBORw0KGgo='') ''SUQzBAAAAAAA''" sampleVideo]
  show ?thesis
    by (simp add: st reset_ready_step video_after_reset_step readyWorld_reached
        readyWorld_video_step videos_nonempty del: step.simps run.simps)
qed


section \<open>Starting a recording (C7, C8)\<close>











lemma checkApiKey_studioWindow:
  "checkApiKey (studioWindow (Fulfilled ()))
     = ([Invoked HasSelectedApiKey, Resolved HasSelectedApiKey,
         Invoked OpenSelectKey, Resolved OpenSelectKey], Fulfilled ())"
  "checkApiKey (studioWindow Pending)
     = ([Invoked HasSelectedApiKey, Resolved HasSelectedApiKey, Invoked OpenSelectKey], Pending)"
  "checkApiKey noStudio = ([], Fulfilled ())"
  by (simp_all add: checkApiKey_def studioWindow_def noStudio_def)


text \<open>
  When the start fails, \<^verbatim>\<open>startRecording\<close> leaves the phase as it was and stores the
  fixed message in \<open>error\<close>.
\<close>

lemma startRecording_failure:
  assumes "startFails window devices"
  shows "state (snd (startRecording window devices s)) = state s"
    and "error (snd (startRecording window devices s)) = Some startError"
  using assms
  by (cases "checkApiKey window"; cases "snd (checkApiKey window)";
      cases "getUserMedia devices"; simp add: startRecording_def startFails_def)+

lemma idle_error_not_rendered: "state s \<noteq> ERROR \<Longrightarrow> renderedError s = None"
  by (simp add: renderedError_def)

text \<open>
  C7 at the failing input: the user denies the microphone in the initial state. The
  phase stays \<open>IDLE\<close> and the message is stored in \<open>error\<close>, but the component renders
  \<open>error\<close> only in phase \<open>ERROR\<close>: nothing is shown to the user.
\<close>

theorem start_failure_message_not_rendered:
  "startFails noStudio micDenied
   \<and> step (ClickStart noStudio micDenied) initialWorld
       = Some (initialWorld\<lparr>app := initialApp\<lparr>error := Some startError\<rparr>\<rparr>)
   \<and> state (snd (startRecording noStudio micDenied initialApp)) = IDLE
   \<and> error (snd (startRecording noStudio micDenied initialApp)) = Some startError
   \<and> renderedError (snd (startRecording noStudio micDenied initialApp)) = None"
proof -
  have f: "startFails noStudio micDenied"
    by (simp add: startFails_def checkApiKey_studioWindow micDenied_def)
  have s: "snd (startRecording noStudio micDenied initialApp)
      = initialApp\<lparr>error := Some startError\<rparr>"
    by (simp add: startRecording_def checkApiKey_studioWindow micDenied_def)
  have i: "state initialApp = IDLE" by (simp add: initialApp_def)
  show ?thesis
    by (simp add: f s i initialWorld_def offersStart_def renderedError_def)
qed


end
